theory Spec2Isabelle
  imports Complex_Main "HOL-Library.AList"
begin

section \<open>Tables\<close>

text \<open>
  The program works on pandas data frames. A frame is modelled by its index and its
  columns in their order; a column is the list of its cells, one per row. A cell of a
  column read from a CSV file is a number, a missing value (pandas' \<open>NaN\<close>) or text.
  The number in a cell is the real number the double stands for.
  The index is the positional \<open>RangeIndex\<close> that \<open>read_csv\<close> gives a frame, or an \<open>Index\<close>
  of text labels (\<open>read_csv\<close> makes one of the first field when the data rows have one
  field more than the header), or a \<open>DatetimeIndex\<close> carrying the name of the column it
  came from and the parsed timestamps. The type of timestamps is left open (\<open>'ts\<close>).
\<close>

datatype cell = Num real | NaN | Str string

datatype 'ts index_t =
    RangeIndex nat
  | LabelIndex "string list"
  | DatetimeIndex string "'ts list"

record 'ts frame =
  index :: "'ts index_t"
  columns :: "(string \<times> cell list) list"

datatype exn =
    KeyError string
  | AttributeError string
  | TypeError string
  | PandasError string

text \<open>\<open>len(df)\<close>: the number of rows is the length of the index.\<close>

fun len_index :: "'ts index_t \<Rightarrow> nat" where
  "len_index (RangeIndex n) = n"
| "len_index (LabelIndex labels) = length labels"
| "len_index (DatetimeIndex name ts) = length ts"

definition len_frame :: "'ts frame \<Rightarrow> nat" where
  "len_frame df = len_index (index df)"

text \<open>\<open>name in df.columns\<close> and \<open>df[name]\<close>.\<close>

definition has_column :: "'ts frame \<Rightarrow> string \<Rightarrow> bool" where
  "has_column df name \<longleftrightarrow> name \<in> set (map fst (columns df))"

definition getitem :: "'ts frame \<Rightarrow> string \<Rightarrow> cell list option" where
  "getitem df name = map_of (columns df) name"

text \<open>
  A frame is well formed when its column names are distinct (\<open>read_csv\<close> renames
  duplicates) and every column has one cell per row.
\<close>

definition wf_frame :: "'ts frame \<Rightarrow> bool" where
  "wf_frame df \<longleftrightarrow>
     distinct (map fst (columns df)) \<and>
     list_all (\<lambda>c. length (snd c) = len_frame df) (columns df)"

section \<open>Floating-point values\<close>

text \<open>
  The scorer computes with IEEE doubles (numpy's \<open>float64\<close>): a finite value, one of the
  two infinities, or \<open>nan\<close>. The model keeps the special values and their propagation,
  and the overflow of a finite result to an infinity. A finite result within range is
  kept exact: its rounding to 53 bits, underflow and the sign of zero are not modelled
  (a zero divisor counts as \<open>+0\<close>). numpy does not raise on a division by zero.
\<close>

datatype float64 = Fin real | PosInf | NegInf | Nan

definition overflow_threshold :: real where
  "overflow_threshold = 2 ^ 1024 - 2 ^ 970"

definition ov :: "real \<Rightarrow> float64" where
  "ov x = (if overflow_threshold \<le> x then PosInf
           else if x \<le> - overflow_threshold then NegInf
           else Fin x)"

fun fneg :: "float64 \<Rightarrow> float64" where
  "fneg (Fin a) = Fin (- a)"
| "fneg PosInf = NegInf"
| "fneg NegInf = PosInf"
| "fneg Nan = Nan"

fun fadd :: "float64 \<Rightarrow> float64 \<Rightarrow> float64" where
  "fadd Nan y = Nan"
| "fadd x Nan = Nan"
| "fadd (Fin a) (Fin b) = ov (a + b)"
| "fadd PosInf NegInf = Nan"
| "fadd NegInf PosInf = Nan"
| "fadd PosInf y = PosInf"
| "fadd NegInf y = NegInf"
| "fadd x PosInf = PosInf"
| "fadd x NegInf = NegInf"

definition fsub :: "float64 \<Rightarrow> float64 \<Rightarrow> float64" where
  "fsub x y = fadd x (fneg y)"

fun fmul :: "float64 \<Rightarrow> float64 \<Rightarrow> float64" where
  "fmul Nan y = Nan"
| "fmul x Nan = Nan"
| "fmul (Fin a) (Fin b) = ov (a * b)"
| "fmul (Fin a) PosInf = (if a = 0 then Nan else if 0 < a then PosInf else NegInf)"
| "fmul (Fin a) NegInf = (if a = 0 then Nan else if 0 < a then NegInf else PosInf)"
| "fmul PosInf (Fin b) = (if b = 0 then Nan else if 0 < b then PosInf else NegInf)"
| "fmul NegInf (Fin b) = (if b = 0 then Nan else if 0 < b then NegInf else PosInf)"
| "fmul PosInf PosInf = PosInf"
| "fmul PosInf NegInf = NegInf"
| "fmul NegInf PosInf = NegInf"
| "fmul NegInf NegInf = PosInf"

fun fdiv :: "float64 \<Rightarrow> float64 \<Rightarrow> float64" where
  "fdiv Nan y = Nan"
| "fdiv x Nan = Nan"
| "fdiv (Fin a) (Fin b) =
     (if b = 0 then (if a = 0 then Nan else if 0 < a then PosInf else NegInf)
      else ov (a / b))"
| "fdiv (Fin a) PosInf = Fin 0"
| "fdiv (Fin a) NegInf = Fin 0"
| "fdiv PosInf (Fin b) = (if 0 \<le> b then PosInf else NegInf)"
| "fdiv NegInf (Fin b) = (if 0 \<le> b then NegInf else PosInf)"
| "fdiv PosInf PosInf = Nan"
| "fdiv PosInf NegInf = Nan"
| "fdiv NegInf PosInf = Nan"
| "fdiv NegInf NegInf = Nan"

text \<open>The comparisons \<open>x > y\<close> and \<open>x <= y\<close>: false as soon as one side is \<open>nan\<close>.\<close>

fun fgt :: "float64 \<Rightarrow> float64 \<Rightarrow> bool" where
  "fgt Nan y = False"
| "fgt x Nan = False"
| "fgt (Fin a) (Fin b) = (b < a)"
| "fgt PosInf PosInf = False"
| "fgt PosInf y = True"
| "fgt x PosInf = False"
| "fgt NegInf y = False"
| "fgt x NegInf = True"

fun fle :: "float64 \<Rightarrow> float64 \<Rightarrow> bool" where
  "fle Nan y = False"
| "fle x Nan = False"
| "fle (Fin a) (Fin b) = (a \<le> b)"
| "fle NegInf y = True"
| "fle x PosInf = True"
| "fle PosInf y = False"
| "fle x NegInf = False"

text \<open>
  Python's \<open>max(x, y)\<close> keeps \<open>x\<close> unless \<open>y > x\<close>, so \<open>max(nan, 0)\<close> is \<open>nan\<close>.
\<close>

definition py_max :: "float64 \<Rightarrow> float64 \<Rightarrow> float64" where
  "py_max x y = (if fgt y x then y else x)"

text \<open>
  \<open>abs(x - y) <= tol\<close>, the test of a tolerance on two doubles: false when the difference
  is \<open>nan\<close> (as it is between two equal infinities) or infinite.
\<close>

fun fabs :: "float64 \<Rightarrow> float64" where
  "fabs (Fin a) = Fin \<bar>a\<bar>"
| "fabs PosInf = PosInf"
| "fabs NegInf = PosInf"
| "fabs Nan = Nan"

definition within_tolerance :: "float64 \<Rightarrow> float64 \<Rightarrow> real \<Rightarrow> bool" where
  "within_tolerance x y tol = fle (fabs (fsub x y)) (Fin tol)"

section \<open>The pandas reductions used by the scorer\<close>

text \<open>
  A column holding text has dtype \<open>object\<close>; the numeric reductions and the comparison
  with a number raise \<open>TypeError\<close> on it (the model's \<open>TypeError\<close> carries the name of
  the column, not the text of pandas' message). On a numeric column the reductions skip
  the missing cells.
\<close>

fun is_text :: "cell \<Rightarrow> bool" where
  "is_text (Str s) = True"
| "is_text c = False"

definition numeric :: "cell list \<Rightarrow> bool" where
  "numeric col \<longleftrightarrow> list_all (\<lambda>c. \<not> is_text c) col"

fun dropna :: "cell list \<Rightarrow> real list" where
  "dropna [] = []"
| "dropna (Num x # cs) = x # dropna cs"
| "dropna (c # cs) = dropna cs"

text \<open>
  \<open>Series.mean()\<close> and \<open>Series.std()\<close> are parameters of the model: the double that
  pandas returns for a numeric column. What the scorer does with them depends on their
  exact value (whether \<open>std()\<close> is zero, the sign of a mean close to zero, an overflow to
  \<open>inf\<close>), and that value depends on the order of the additions and on the rounding
  inside the library: the mean of 0.1, 0.1, 0.1 is not 0.1, and their \<open>std()\<close> is not 0.
\<close>

record reductions =
  mean :: "cell list \<Rightarrow> float64"
  std :: "cell list \<Rightarrow> float64"

text \<open>
  The cases that do not depend on the arithmetic are fixed: the mean of no value is
  \<open>nan\<close>, and the sample standard deviation (\<open>ddof = 1\<close>) of fewer than two values is
  \<open>nan\<close>.
\<close>

definition series_mean :: "reductions \<Rightarrow> cell list \<Rightarrow> float64" where
  "series_mean pd col = (if dropna col = [] then Nan else mean pd col)"

definition series_std :: "reductions \<Rightarrow> cell list \<Rightarrow> float64" where
  "series_std pd col = (if length (dropna col) < 2 then Nan else std pd col)"

text \<open>
  What the theorems below assume of \<open>mean()\<close> where they need it: the mean of values
  none of which is negative is not negative (it may be \<open>inf\<close> or \<open>nan\<close>).
\<close>

definition mean_keeps_sign :: "reductions \<Rightarrow> bool" where
  "mean_keeps_sign pd \<longleftrightarrow>
     (\<forall>col. list_all (\<lambda>x. 0 \<le> x) (dropna col) \<longrightarrow> \<not> fgt (Fin 0) (mean pd col))"

text \<open>
  \<open>Series.quantile(q)\<close> with the default linear interpolation: in the sorted values,
  the position \<open>(n - 1) * q\<close> is interpolated between its two neighbours. The model is
  the exact interpolation; the library's differs from it by rounding, and by more only
  where the difference of two neighbours overflows. It enters the scorer through one
  comparison per row.
\<close>

definition quantile :: "real \<Rightarrow> real list \<Rightarrow> real" where
  "quantile q xs =
     (let s = sort xs;
          n = length s;
          pos = real (n - 1) * q;
          lo = nat \<lfloor>pos\<rfloor>;
          hi = min (lo + 1) (n - 1);
          g = pos - real lo
      in s ! lo + (s ! hi - s ! lo) * g)"

text \<open>
  \<open>(series > t).mean()\<close>: the fraction of the rows whose cell is a number above \<open>t\<close>.
  A missing cell compares false and still counts as a row.
\<close>

fun cell_gt :: "real \<Rightarrow> cell \<Rightarrow> bool" where
  "cell_gt t (Num x) = (t < x)"
| "cell_gt t c = False"

definition frac_gt :: "cell list \<Rightarrow> real \<Rightarrow> real" where
  "frac_gt col t = real (length (filter (cell_gt t) col)) / real (length col)"

section \<open>The solar scorer\<close>

record score =
  total_score :: float64
  components :: "(string \<times> float64) list"
  raw_scores :: "string \<rightharpoonup> float64"

text \<open>
  \<open>score_data['components'][key]\<close>, as \<open>render_solar_scorecard\<close> reads the weighted values.
\<close>

definition component :: "string \<Rightarrow> score \<Rightarrow> float64 option" where
  "component key score_data = map_of (components score_data) key"

text \<open>Reading a key of a dictionary raises \<open>KeyError\<close> when the key is absent.\<close>

definition dict_get :: "(string \<rightharpoonup> float64) \<Rightarrow> string \<Rightarrow> exn + float64" where
  "dict_get d k = (case d k of None \<Rightarrow> Inl (KeyError k) | Some v \<Rightarrow> Inr v)"

text \<open>
  Lines 48-49: the share of rows above the 70th percentile, in percent, a number between
  0 and 100. When no cell of the column is a number the percentile is \<open>nan\<close> and no row is
  above it; in the model every cell is then missing and compares false with any
  threshold.
\<close>

definition reliability_raw :: "cell list \<Rightarrow> real" where
  "reliability_raw ghi_col = frac_gt ghi_col (quantile 0.7 (dropna ghi_col)) * 100"

text \<open>Lines 53-56: the weather score before it is floored, a number between 50 and 100.\<close>

definition weather_unfloored :: "'ts frame \<Rightarrow> exn + real" where
  "weather_unfloored df =
     (let weather_score = 100 in
      case getitem df ''RH'' of
        None \<Rightarrow> Inr weather_score
      | Some rh \<Rightarrow>
          if \<not> numeric rh then Inl (TypeError ''RH'')
          else let high_humidity = frac_gt rh 85 * 100
               in Inr (weather_score - high_humidity * 0.5))"

text \<open>
  Lines 44-45: \<open>consistency = (1 - std / mean) * 100\<close>, then \<open>max(consistency, 0)\<close>. With a
  zero mean the quotient is \<open>inf\<close>, the product \<open>-inf\<close> and the maximum 0; with an infinite
  mean and an infinite \<open>std\<close> the quotient is \<open>nan\<close> and so is the maximum.
\<close>

definition consistency_floored :: "float64 \<Rightarrow> float64 \<Rightarrow> float64" where
  "consistency_floored std_ghi mean_ghi =
     (let consistency = fmul (fsub (Fin 1) (fdiv std_ghi mean_ghi)) (Fin 100)
      in py_max consistency (Fin 0))"

text \<open>Lines 63-66: \<open>(raw / scale) * weight\<close>.\<close>

definition weighted :: "float64 \<Rightarrow> float64 \<Rightarrow> float64 \<Rightarrow> float64" where
  "weighted raw scale weight = fmul (fdiv raw scale) weight"

text \<open>
  \<open>create_solar_score\<close>, lines 31-75. The arithmetic on the mean and the standard
  deviation, the normalisation and the sum are double arithmetic; \<open>sum\<close> adds the values
  of the dictionary in their order, starting from 0.
\<close>

definition create_solar_score :: "reductions \<Rightarrow> 'ts frame \<Rightarrow> exn + score option" where
  "create_solar_score pd df =
     (case getitem df ''GHI'' of
        None \<Rightarrow> Inr None
      | Some ghi_col \<Rightarrow>
          (if \<not> numeric ghi_col then Inl (TypeError ''GHI'')
           else
             (let energy_score = series_mean pd ghi_col;
                  scores = Map.empty;
                  scores = scores(''energy'' \<mapsto> energy_score);
                  scores =
                    (if fgt (series_std pd ghi_col) (Fin 0)
                     then scores(''consistency'' \<mapsto>
                            consistency_floored (series_std pd ghi_col) (series_mean pd ghi_col))
                     else scores);
                  reliability = Fin (reliability_raw ghi_col);
                  scores = scores(''reliability'' \<mapsto> reliability)
              in (case weather_unfloored df of
                    Inl e \<Rightarrow> Inl e
                  | Inr weather_score \<Rightarrow>
                      (let scores = scores(''weather'' \<mapsto> py_max (Fin weather_score) (Fin 0));
                           max_energy = py_max energy_score (Fin 500)
                       in (case dict_get scores ''consistency'' of
                             Inl e \<Rightarrow> Inl e
                           | Inr consistency \<Rightarrow>
                               (case dict_get scores ''weather'' of
                                  Inl e \<Rightarrow> Inl e
                                | Inr weather \<Rightarrow>
                                    (let normalized_scores =
                                           [(''energy'',
                                               weighted energy_score max_energy (Fin 40)),
                                            (''consistency'',
                                               weighted consistency (Fin 100) (Fin 30)),
                                            (''reliability'',
                                               weighted reliability (Fin 100) (Fin 20)),
                                            (''weather'',
                                               weighted weather (Fin 100) (Fin 10))];
                                         total = foldl fadd (Fin 0) (map snd normalized_scores)
                                     in Inr (Some \<lparr>total_score = total,
                                                    components = normalized_scores,
                                                    raw_scores = scores\<rparr>)))))))))"

section \<open>The data loader\<close>

text \<open>
  \<open>load_data\<close> calls into pandas: \<open>read_csv\<close> on the uploaded file, \<open>to_datetime\<close> on a
  column, and the attributes \<open>hour\<close>, \<open>month\<close> and \<open>dayofweek\<close> of a datetime index.
  The library is a parameter of the model: a record of these operations. \<open>read_csv\<close>
  and \<open>to_datetime\<close> either return or raise; the three attributes of a timestamp give
  the cell stored for it (a number, or \<open>NaN\<close> for \<open>NaT\<close>).
\<close>

record ('f, 'ts) pandas =
  read_csv :: "'f \<Rightarrow> exn + 'ts frame"
  to_datetime :: "cell list \<Rightarrow> exn + 'ts list"
  hour :: "'ts \<Rightarrow> cell"
  month :: "'ts \<Rightarrow> cell"
  dayofweek :: "'ts \<Rightarrow> cell"

definition timestamp_cols :: "string list" where
  "timestamp_cols = [''Timestamp'', ''timestamp'', ''Date'', ''date'', ''Time'', ''time'']"

text \<open>
  \<open>df.set_index(col, inplace=True)\<close> after \<open>df[col] = pd.to_datetime(df[col])\<close>: the parsed
  column becomes the index and leaves the columns.
\<close>

definition set_index :: "string \<Rightarrow> 'ts list \<Rightarrow> 'ts frame \<Rightarrow> 'ts frame" where
  "set_index col ts df =
     df\<lparr>index := DatetimeIndex col ts, columns := AList.delete col (columns df)\<rparr>"

text \<open>
  Lines 15-19: the loop over the candidate names. The first name that is a column is
  parsed and made the index, and the loop is left; an exception of \<open>to_datetime\<close> leaves
  the function.
\<close>

fun detect_timestamp ::
  "('f, 'ts) pandas \<Rightarrow> string list \<Rightarrow> 'ts frame \<Rightarrow> exn + 'ts frame" where
  "detect_timestamp pd [] df = Inr df"
| "detect_timestamp pd (col # cols) df =
     (case getitem df col of
        Some cells \<Rightarrow>
          (case to_datetime pd cells of
             Inl e \<Rightarrow> Inl e
           | Inr ts \<Rightarrow> Inr (set_index col ts df))
      | None \<Rightarrow> detect_timestamp pd cols df)"

text \<open>
  \<open>df.index.hour\<close> and its siblings: only a \<open>DatetimeIndex\<close> has them. On another index
  the read raises \<open>AttributeError\<close>, whose message names the class of the index.
\<close>

fun index_class :: "'ts index_t \<Rightarrow> string" where
  "index_class (RangeIndex n) = ''RangeIndex''"
| "index_class (LabelIndex labels) = ''Index''"
| "index_class (DatetimeIndex col ts) = ''DatetimeIndex''"

definition no_attribute :: "string \<Rightarrow> string \<Rightarrow> exn" where
  "no_attribute cls name =
     AttributeError ([CHR 0x27] @ cls @ [CHR 0x27] @ '' object has no attribute '' @
       [CHR 0x27] @ name @ [CHR 0x27])"

fun index_attr :: "('ts \<Rightarrow> cell) \<Rightarrow> string \<Rightarrow> 'ts index_t \<Rightarrow> exn + cell list" where
  "index_attr f name (DatetimeIndex col ts) = Inr (map f ts)"
| "index_attr f name idx = Inl (no_attribute (index_class idx) name)"

text \<open>\<open>df[name] = values\<close>: replaces the column of that name, or appends a new one.\<close>

definition setitem :: "'ts frame \<Rightarrow> string \<Rightarrow> cell list \<Rightarrow> 'ts frame" where
  "setitem df name cells = df\<lparr>columns := AList.update name cells (columns df)\<rparr>"

text \<open>\<open>str(n)\<close> of a natural number: its decimal digits.\<close>

definition digit :: "nat \<Rightarrow> char" where
  "digit d = ''0123456789'' ! d"

fun str_nat :: "nat \<Rightarrow> string" where
  "str_nat n = (if n < 10 then [digit n] else str_nat (n div 10) @ [digit (n mod 10)])"

text \<open>\<open>str(e)\<close>: the message of an exception; for a \<open>KeyError\<close>, the key in quotes.\<close>

fun str_exn :: "exn \<Rightarrow> string" where
  "str_exn (KeyError k) = [CHR 0x27] @ k @ [CHR 0x27]"
| "str_exn (AttributeError m) = m"
| "str_exn (TypeError m) = m"
| "str_exn (PandasError m) = m"

definition success_message :: "'ts frame \<Rightarrow> string" where
  "success_message df =
     ''Successfully loaded '' @ str_nat (len_frame df) @ '' rows with '' @
       str_nat (length (columns df)) @ '' columns''"

text \<open>Lines 11-26: the body of the \<open>try\<close> block.\<close>

definition load_data_try :: "('f, 'ts) pandas \<Rightarrow> 'f \<Rightarrow> exn + ('ts frame \<times> string)" where
  "load_data_try pd uploaded_file =
     (case read_csv pd uploaded_file of
        Inl e \<Rightarrow> Inl e
      | Inr df \<Rightarrow>
          (case detect_timestamp pd timestamp_cols df of
             Inl e \<Rightarrow> Inl e
           | Inr df \<Rightarrow>
               (case index_attr (hour pd) ''hour'' (index df) of
                  Inl e \<Rightarrow> Inl e
                | Inr hours \<Rightarrow>
                    let df = setitem df ''Hour'' hours in
                    (case index_attr (month pd) ''month'' (index df) of
                       Inl e \<Rightarrow> Inl e
                     | Inr months \<Rightarrow>
                         let df = setitem df ''Month'' months in
                         (case index_attr (dayofweek pd) ''dayofweek'' (index df) of
                            Inl e \<Rightarrow> Inl e
                          | Inr days \<Rightarrow>
                              let df = setitem df ''DayOfWeek'' days
                              in Inr (df, success_message df))))))"

text \<open>
  Lines 10 and 28-29: \<open>except Exception\<close> turns every exception of the body into the
  pair of no table and a message.
\<close>

definition load_data :: "('f, 'ts) pandas \<Rightarrow> 'f \<Rightarrow> 'ts frame option \<times> string" where
  "load_data pd uploaded_file =
     (case load_data_try pd uploaded_file of
        Inr (df, message) \<Rightarrow> (Some df, message)
      | Inl e \<Rightarrow> (None, ''Error loading file: '' @ str_exn e))"

section \<open>Properties of the double arithmetic\<close>

lemma overflow_threshold_large: "1000000 < overflow_threshold"
  unfolding overflow_threshold_def by simp

lemma ov_in_range:
  assumes "\<bar>x\<bar> \<le> 1000000"
  shows "ov x = Fin x"
  using assms overflow_threshold_large unfolding ov_def by auto

lemma fadd_Fin_zero: "fadd (Fin 0) (Fin a) = Fin t \<Longrightarrow> t = a"
  by (auto simp: ov_def split: if_splits)

lemma fadd_eq_Fin:
  assumes "fadd x y = Fin t"
  obtains a b where "x = Fin a" "y = Fin b" "a + b = t" "ov (a + b) = Fin (a + b)"
  using assms by (cases x; cases y) (auto simp: ov_def split: if_splits)

lemma within_tolerance_refl: "0 \<le> tol \<Longrightarrow> within_tolerance (Fin t) (Fin t) tol"
  unfolding within_tolerance_def fsub_def using overflow_threshold_large
  by (simp add: ov_def)

lemma py_max_Fin: "py_max (Fin a) (Fin b) = Fin (max a b)"
  unfolding py_max_def by (simp add: max_def)

lemma ratio_bounds:
  assumes "0 \<le> x" "x \<le> d" "0 < (d::real)"
  shows "0 \<le> x / d \<and> x / d \<le> 1"
  using assms by (simp add: divide_le_eq_1)

lemma scale_bounds:
  assumes "0 \<le> q" "q \<le> 1" "0 \<le> (w::real)"
  shows "0 \<le> q * w \<and> q * w \<le> w"
proof -
  have "q * w \<le> 1 * w" using assms(2) assms(3) by (rule mult_right_mono)
  moreover have "0 \<le> q * w" using assms(1) assms(3) by (rule mult_nonneg_nonneg)
  ultimately show ?thesis by simp
qed

lemma weighted_in_range:
  assumes "0 \<le> x" "x \<le> d" "0 < d" "0 \<le> w" "w \<le> 100"
  shows "weighted (Fin x) (Fin d) (Fin w) = Fin (x / d * w) \<and>
         0 \<le> x / d * w \<and> x / d * w \<le> w"
proof -
  define q where "q = x / d"
  have q: "0 \<le> q" "q \<le> 1" unfolding q_def using ratio_bounds[OF assms(1-3)] by simp_all
  have p: "0 \<le> q * w" "q * w \<le> w" using scale_bounds[OF q assms(4)] by simp_all
  have "\<bar>q\<bar> \<le> 1000000" using q by simp
  then have oq: "ov q = Fin q" by (rule ov_in_range)
  have "\<bar>q * w\<bar> \<le> 1000000" using p assms(5) by linarith
  then have op: "ov (q * w) = Fin (q * w)" by (rule ov_in_range)
  have "fdiv (Fin x) (Fin d) = ov (x / d)" using assms(3) by simp
  then have "fdiv (Fin x) (Fin d) = Fin q" using oq by (simp add: q_def)
  then have "weighted (Fin x) (Fin d) (Fin w) = Fin (q * w)"
    unfolding weighted_def using op by simp
  then show ?thesis using p unfolding q_def by simp
qed

section \<open>Properties of the reductions\<close>

lemma frac_gt_nonneg: "0 \<le> frac_gt col t"
  unfolding frac_gt_def by simp

lemma frac_gt_le_one: "frac_gt col t \<le> 1"
proof -
  have "length (filter (cell_gt t) col) \<le> length col" by (rule length_filter_le)
  then show ?thesis unfolding frac_gt_def
    by (cases "col = []") (simp_all add: divide_le_eq_1)
qed

lemma quantile_pos_bounds:
  assumes "0 < n"
  shows "nat \<lfloor>real (n - 1) * (0.7::real)\<rfloor> \<le> n - 1"
proof -
  have "real (n - 1) * (0.7::real) \<le> real (n - 1)" by simp
  then have "\<lfloor>real (n - 1) * (0.7::real)\<rfloor> \<le> int (n - 1)" by linarith
  then show ?thesis by linarith
qed

lemma quantile_ge_member:
  assumes "xs \<noteq> []"
  shows "\<exists>x \<in> set xs. x \<le> quantile 0.7 xs"
proof -
  define s where "s = sort xs"
  define n where "n = length s"
  define pos where "pos = real (n - 1) * (0.7::real)"
  define lo where "lo = nat \<lfloor>pos\<rfloor>"
  define hi where "hi = min (lo + 1) (n - 1)"
  have n: "0 < n" using assms by (simp add: n_def s_def)
  have lo: "lo \<le> n - 1" unfolding lo_def pos_def using quantile_pos_bounds[OF n] .
  have lohi: "lo \<le> hi" "hi < n" using lo n unfolding hi_def by auto
  have "sorted s" by (simp add: s_def)
  then have le: "s ! lo \<le> s ! hi" using lohi by (simp add: n_def sorted_nth_mono)
  have "0 \<le> pos" by (simp add: pos_def)
  then have g: "0 \<le> pos - real lo" unfolding lo_def by linarith
  have q: "quantile 0.7 xs = s ! lo + (s ! hi - s ! lo) * (pos - real lo)"
    unfolding quantile_def Let_def s_def n_def pos_def lo_def hi_def by simp
  have "s ! lo \<le> quantile 0.7 xs" unfolding q using le g by simp
  moreover have "s ! lo \<in> set xs"
  proof -
    have "lo < n" using lo n by linarith
    then have "lo < length s" by (simp add: n_def)
    then have "s ! lo \<in> set s" by (rule nth_mem)
    then show ?thesis by (simp add: s_def)
  qed
  ultimately show ?thesis by blast
qed

lemma set_dropna: "x \<in> set (dropna col) \<longleftrightarrow> Num x \<in> set col"
  by (induction col rule: dropna.induct) auto

lemma length_dropna_le: "length (dropna col) \<le> length col"
  by (induction col rule: dropna.induct) auto

lemma count_above_quantile:
  assumes "col \<noteq> []"
  shows "length (filter (cell_gt (quantile 0.7 (dropna col))) col) \<le> length col - 1"
proof (cases "dropna col = []")
  case True
  have "\<not> cell_gt (quantile 0.7 (dropna col)) c" if c: "c \<in> set col" for c
  proof (cases c)
    case (Num x)
    then have "x \<in> set (dropna col)" using c by (simp add: set_dropna)
    then have False unfolding True by simp
    then show ?thesis ..
  qed simp_all
  then have "filter (cell_gt (quantile 0.7 (dropna col))) col = []"
    unfolding filter_empty_conv by blast
  then show ?thesis by simp
next
  case False
  then obtain x where x: "x \<in> set (dropna col)" "x \<le> quantile 0.7 (dropna col)"
    using quantile_ge_member[of "dropna col"] by blast
  have mem: "Num x \<in> set col" using x(1) by (simp add: set_dropna)
  have no: "\<not> cell_gt (quantile 0.7 (dropna col)) (Num x)" using x(2) by simp
  have "length (filter (cell_gt (quantile 0.7 (dropna col))) col) < length col"
    using mem no by (rule length_filter_less)
  then show ?thesis by linarith
qed

lemma reliability_raw_bound:
  assumes "col \<noteq> []"
  shows "reliability_raw col \<le> 100 * real (length col - 1) / real (length col)"
proof -
  have n: "0 < real (length col)" using assms by simp
  have "real (length (filter (cell_gt (quantile 0.7 (dropna col))) col)) \<le> real (length col - 1)"
    using count_above_quantile[OF assms] by linarith
  then have "frac_gt col (quantile 0.7 (dropna col)) \<le> real (length col - 1) / real (length col)"
    unfolding frac_gt_def using n by (simp add: divide_right_mono)
  then show ?thesis unfolding reliability_raw_def by simp
qed

lemma reliability_raw_lt_100:
  assumes "col \<noteq> []"
  shows "reliability_raw col < 100"
proof -
  have n: "0 < real (length col)" using assms by simp
  have "real (length col - 1) < real (length col)" using assms by simp
  then have "real (length col - 1) / real (length col) < 1" using n by simp
  then have "100 * real (length col - 1) / real (length col) < 100" by simp
  then show ?thesis using reliability_raw_bound[OF assms] by linarith
qed

lemma reliability_raw_nonneg: "0 \<le> reliability_raw col"
  unfolding reliability_raw_def using frac_gt_nonneg by simp

lemma has_column_getitem: "has_column df name \<longleftrightarrow> getitem df name \<noteq> None"
  unfolding has_column_def getitem_def by (simp add: map_of_eq_None_iff)

lemma dropna_replicate: "dropna (replicate n (Num v)) = replicate n v"
  by (induction n) simp_all

lemma numeric_replicate: "numeric (replicate n (Num v))"
  unfolding numeric_def by (induction n) simp_all

lemma sort_replicate: "sort (replicate n (v::real)) = replicate n v"
proof (induction n)
  case 0
  show ?case by simp
next
  case (Suc n)
  have "insort v (replicate n v) = v # replicate n v"
    by (rule insort_is_Cons) simp
  then show ?case using Suc by simp
qed

lemma quantile_replicate:
  assumes "0 < n"
  shows "quantile 0.7 (replicate n v) = v"
proof -
  have lo: "nat \<lfloor>real (n - 1) * (0.7::real)\<rfloor> < n"
    using quantile_pos_bounds[OF assms] assms by linarith
  have hi: "min (nat \<lfloor>real (n - 1) * (0.7::real)\<rfloor> + 1) (n - 1) < n"
    using assms by linarith
  show ?thesis
    unfolding quantile_def Let_def sort_replicate length_replicate
    using lo hi by (simp only: nth_replicate) simp
qed

lemma reliability_raw_constant: "reliability_raw (replicate n (Num v)) = 0"
proof (cases "n = 0")
  case True
  then show ?thesis by (simp add: reliability_raw_def frac_gt_def)
next
  case False
  then have q: "quantile 0.7 (replicate n v) = v" by (simp add: quantile_replicate)
  have "filter (cell_gt v) (replicate n (Num v)) = []"
    by (induction n) simp_all
  then show ?thesis
    unfolding reliability_raw_def frac_gt_def dropna_replicate q by simp
qed

lemma wf_frame_length:
  assumes "wf_frame df" and "getitem df name = Some col"
  shows "length col = len_frame df"
proof -
  have "(name, col) \<in> set (columns df)"
    using assms(2) unfolding getitem_def by (rule map_of_SomeD)
  moreover have "\<forall>c \<in> set (columns df). length (snd c) = len_frame df"
    using assms(1) unfolding wf_frame_def list_all_iff by simp
  ultimately show ?thesis by fastforce
qed

lemma frac_gt_zero:
  assumes "list_all (\<lambda>x. x \<le> t) (dropna col)"
  shows "frac_gt col t = 0"
proof -
  have "\<not> cell_gt t c" if c: "c \<in> set col" for c
  proof (cases c)
    case (Num x)
    then have "x \<in> set (dropna col)" using c by (simp add: set_dropna)
    then have "x \<le> t" using assms by (simp add: list_all_iff)
    then show ?thesis using Num by simp
  qed simp_all
  then have "filter (cell_gt t) col = []" unfolding filter_empty_conv by blast
  then show ?thesis by (simp add: frac_gt_def)
qed

lemma weather_unfloored_cases:
  assumes "weather_unfloored df = Inr w"
  shows "case getitem df ''RH'' of
           None \<Rightarrow> w = 100
         | Some rh \<Rightarrow> numeric rh \<and> w = 100 - frac_gt rh 85 * 100 * 0.5"
  using assms unfolding weather_unfloored_def Let_def
  by (auto split: option.splits if_splits)

lemma weather_unfloored_range:
  assumes "weather_unfloored df = Inr w"
  shows "50 \<le> w \<and> w \<le> 100"
proof (cases "getitem df ''RH''")
  case None
  then show ?thesis using weather_unfloored_cases[OF assms] by simp
next
  case (Some rh)
  then have w: "w = 100 - frac_gt rh 85 * 100 * 0.5"
    using weather_unfloored_cases[OF assms] by simp
  have "0 \<le> frac_gt rh 85" "frac_gt rh 85 \<le> 1"
    by (rule frac_gt_nonneg, rule frac_gt_le_one)
  then show ?thesis unfolding w by simp
qed

lemma reliability_raw_le_100: "reliability_raw col \<le> 100"
proof (cases "col = []")
  case True
  then show ?thesis by (simp add: reliability_raw_def frac_gt_def)
next
  case False
  then show ?thesis using reliability_raw_lt_100[of col] by simp
qed

section \<open>What the scorer returns\<close>

lemma consistency_floored_range:
  assumes "fgt s (Fin 0)" and "0 \<le> m"
  shows "\<exists>c. consistency_floored s (Fin m) = Fin c \<and> 0 \<le> c \<and> c \<le> 100"
proof (cases s)
  case (Fin sv)
  then have sv: "0 < sv" using assms(1) by simp
  show ?thesis
  proof (cases "m = 0")
    case True
    then show ?thesis using Fin sv
      by (simp add: consistency_floored_def fsub_def py_max_def)
  next
    case False
    then have m: "0 < m" using assms(2) by simp
    then have q: "0 < sv / m" using sv by simp
    show ?thesis
    proof (cases "overflow_threshold \<le> sv / m")
      case True
      then have "fdiv s (Fin m) = PosInf" using Fin False by (simp add: ov_def)
      then show ?thesis by (simp add: consistency_floored_def fsub_def py_max_def)
    next
      case nov: False
      then have d: "fdiv s (Fin m) = Fin (sv / m)"
        using Fin False q overflow_threshold_large by (simp add: ov_def)
      have "1 - sv / m < overflow_threshold" "\<not> 1 - sv / m \<le> - overflow_threshold"
        using q nov overflow_threshold_large by linarith+
      then have e: "fsub (Fin 1) (Fin (sv / m)) = Fin (1 - sv / m)"
        unfolding fsub_def by (simp add: ov_def)
      define y where "y = (1 - sv / m) * 100"
      have "1 - sv / m \<le> 1" using q by simp
      then have "(1 - sv / m) * 100 \<le> 1 * 100" by (rule mult_right_mono) simp
      then have y: "y \<le> 100" unfolding y_def by simp
      have f: "fmul (Fin (1 - sv / m)) (Fin 100) = ov y" unfolding y_def by simp
      show ?thesis
      proof (cases "y \<le> - overflow_threshold")
        case True
        then have "ov y = NegInf" using overflow_threshold_large by (simp add: ov_def)
        then show ?thesis unfolding consistency_floored_def Let_def d e f
          by (simp add: py_max_def)
      next
        case False
        then have "ov y = Fin y" using y overflow_threshold_large by (simp add: ov_def)
        then have "consistency_floored s (Fin m) = Fin (max y 0)"
          unfolding consistency_floored_def Let_def d e f by (simp add: py_max_Fin)
        then show ?thesis using y by simp
      qed
    qed
  qed
next
  case PosInf
  then show ?thesis using assms(2)
    by (simp add: consistency_floored_def fsub_def py_max_def)
next
  case NegInf
  then show ?thesis using assms(1) by simp
next
  case Nan
  then show ?thesis using assms(1) by simp
qed

lemma energy_weighted_range:
  assumes "0 \<le> m"
  shows "weighted (Fin m) (py_max (Fin m) (Fin 500)) (Fin 40) = Fin (m / max m 500 * 40) \<and>
         0 \<le> m / max m 500 * 40 \<and> m / max m 500 * 40 \<le> 40"
  unfolding py_max_Fin using assms by (intro weighted_in_range) simp_all

lemma percent_weighted_range:
  assumes "0 \<le> x" "x \<le> 100" "0 \<le> w" "w \<le> 100"
  shows "weighted (Fin x) (Fin 100) (Fin w) = Fin (x / 100 * w) \<and>
         0 \<le> x / 100 * w \<and> x / 100 * w \<le> w"
  using assms by (intro weighted_in_range) simp_all

lemma weather_floored:
  assumes "weather_unfloored df = Inr w"
  shows "py_max (Fin w) (Fin 0) = Fin w \<and> 50 \<le> w \<and> w \<le> 100"
  using weather_unfloored_range[OF assms] by (simp add: py_max_Fin)

lemma create_solar_score_value:
  assumes "getitem df ''GHI'' = Some ghi_col" "numeric ghi_col"
    "fgt (series_std pd ghi_col) (Fin 0)" "weather_unfloored df = Inr w"
  shows "create_solar_score pd df =
     Inr (Some \<lparr>total_score =
                  fadd (fadd (fadd (fadd (Fin 0)
                    (weighted (series_mean pd ghi_col) (py_max (series_mean pd ghi_col) (Fin 500))
                        (Fin 40)))
                    (weighted (consistency_floored (series_std pd ghi_col) (series_mean pd ghi_col))
                       (Fin 100) (Fin 30)))
                    (Fin (reliability_raw ghi_col / 100 * 20)))
                    (Fin (w / 100 * 10)),
                components =
                  [(''energy'',
                      weighted (series_mean pd ghi_col) (py_max (series_mean pd ghi_col) (Fin
                          500)) (Fin 40)),
                   (''consistency'',
                      weighted (consistency_floored (series_std pd ghi_col) (series_mean pd
                          ghi_col))
                        (Fin 100) (Fin 30)),
                   (''reliability'', Fin (reliability_raw ghi_col / 100 * 20)),
                   (''weather'', Fin (w / 100 * 10))],
                raw_scores =
                  [''energy'' \<mapsto> series_mean pd ghi_col,
                   ''consistency'' \<mapsto> consistency_floored (series_std pd ghi_col) (series_mean pd
                       ghi_col),
                   ''reliability'' \<mapsto> Fin (reliability_raw ghi_col),
                   ''weather'' \<mapsto> Fin w]\<rparr>)"
proof -
  have r: "weighted (Fin (reliability_raw ghi_col)) (Fin 100) (Fin 20)
             = Fin (reliability_raw ghi_col / 100 * 20)"
    using reliability_raw_nonneg[of ghi_col] reliability_raw_le_100[of ghi_col]
    by (intro percent_weighted_range[THEN conjunct1]) simp_all
  have w: "py_max (Fin w) (Fin 0) = Fin w" "0 \<le> w" "w \<le> 100"
    using weather_floored[OF assms(4)] by simp_all
  have ww: "weighted (Fin w) (Fin 100) (Fin 10) = Fin (w / 100 * 10)"
    using w(2,3) by (intro percent_weighted_range[THEN conjunct1]) simp_all
  show ?thesis
    unfolding create_solar_score_def dict_get_def Let_def
    using assms by (simp add: r w(1) ww)
qed

lemma create_solar_score_returns:
  assumes "getitem df ''GHI'' = Some ghi_col" "numeric ghi_col"
    "fgt (series_std pd ghi_col) (Fin 0)" "weather_unfloored df = Inr w"
  shows "\<exists>r. create_solar_score pd df = Inr (Some r)"
  using create_solar_score_value[OF assms] by simp

lemma create_solar_score_KeyError:
  assumes "getitem df ''GHI'' = Some ghi_col" "numeric ghi_col"
    "\<not> fgt (series_std pd ghi_col) (Fin 0)" "weather_unfloored df = Inr w"
  shows "create_solar_score pd df = Inl (KeyError ''consistency'')"
  using assms
  unfolding create_solar_score_def dict_get_def Let_def
  by simp

lemma create_solar_score_conditions:
  assumes "create_solar_score pd df = Inr (Some r)"
  obtains ghi_col w where
    "getitem df ''GHI'' = Some ghi_col" "numeric ghi_col"
    "fgt (series_std pd ghi_col) (Fin 0)" "weather_unfloored df = Inr w"
proof -
  from assms obtain ghi_col where g: "getitem df ''GHI'' = Some ghi_col"
    unfolding create_solar_score_def by (cases "getitem df ''GHI''") simp_all
  have n: "numeric ghi_col"
    using assms g unfolding create_solar_score_def by (cases "numeric ghi_col") simp_all
  obtain w where w: "weather_unfloored df = Inr w"
    using assms g n unfolding create_solar_score_def Let_def
    by (cases "weather_unfloored df") simp_all
  have "fgt (series_std pd ghi_col) (Fin 0)"
  proof (rule ccontr)
    assume "\<not> fgt (series_std pd ghi_col) (Fin 0)"
    then have "create_solar_score pd df = Inl (KeyError ''consistency'')"
      using g n w by (intro create_solar_score_KeyError)
    then show False using assms by simp
  qed
  then show ?thesis using g n w that by blast
qed


section \<open>Claims on the score record\<close>

lemma create_solar_score_record:
  assumes "create_solar_score pd df = Inr (Some r)"
  obtains ghi_col w where
    "getitem df ''GHI'' = Some ghi_col" "numeric ghi_col"
    "fgt (series_std pd ghi_col) (Fin 0)" "weather_unfloored df = Inr w"
    "total_score r =
       fadd (fadd (fadd (fadd (Fin 0)
         (weighted (series_mean pd ghi_col) (py_max (series_mean pd ghi_col) (Fin 500)) (Fin 40)))
         (weighted (consistency_floored (series_std pd ghi_col) (series_mean pd ghi_col)) (Fin
             100) (Fin 30)))
         (Fin (reliability_raw ghi_col / 100 * 20)))
         (Fin (w / 100 * 10))"
    "components r =
       [(''energy'', weighted (series_mean pd ghi_col) (py_max (series_mean pd ghi_col) (Fin 500))
           (Fin 40)),
        (''consistency'',
           weighted (consistency_floored (series_std pd ghi_col) (series_mean pd ghi_col)) (Fin
               100) (Fin 30)),
        (''reliability'', Fin (reliability_raw ghi_col / 100 * 20)),
        (''weather'', Fin (w / 100 * 10))]"
    "raw_scores r ''energy'' = Some (series_mean pd ghi_col)"
    "raw_scores r ''consistency'' = Some (consistency_floored (series_std pd ghi_col) (series_mean
        pd ghi_col))"
    "raw_scores r ''reliability'' = Some (Fin (reliability_raw ghi_col))"
    "raw_scores r ''weather'' = Some (Fin w)"
proof -
  from assms obtain ghi_col w where c: "getitem df ''GHI'' = Some ghi_col" "numeric ghi_col"
    "fgt (series_std pd ghi_col) (Fin 0)" "weather_unfloored df = Inr w"
    by (rule create_solar_score_conditions)
  have "Inr (Some r) = create_solar_score pd df" using assms by simp
  also note create_solar_score_value[OF c]
  finally have r: "r = \<lparr>total_score =
                  fadd (fadd (fadd (fadd (Fin 0)
                    (weighted (series_mean pd ghi_col) (py_max (series_mean pd ghi_col) (Fin 500))
                        (Fin 40)))
                    (weighted (consistency_floored (series_std pd ghi_col) (series_mean pd ghi_col))
                       (Fin 100) (Fin 30)))
                    (Fin (reliability_raw ghi_col / 100 * 20)))
                    (Fin (w / 100 * 10)),
                components =
                  [(''energy'',
                      weighted (series_mean pd ghi_col) (py_max (series_mean pd ghi_col) (Fin
                          500)) (Fin 40)),
                   (''consistency'',
                      weighted (consistency_floored (series_std pd ghi_col) (series_mean pd
                          ghi_col))
                        (Fin 100) (Fin 30)),
                   (''reliability'', Fin (reliability_raw ghi_col / 100 * 20)),
                   (''weather'', Fin (w / 100 * 10))],
                raw_scores =
                  [''energy'' \<mapsto> series_mean pd ghi_col,
                   ''consistency'' \<mapsto> consistency_floored (series_std pd ghi_col) (series_mean pd
                       ghi_col),
                   ''reliability'' \<mapsto> Fin (reliability_raw ghi_col),
                   ''weather'' \<mapsto> Fin w]\<rparr>"
    by simp
  show ?thesis
    by (rule that[OF c]) (simp_all add: r)
qed

text \<open>
  Claim C1, as amended. Whenever \<open>create_solar_score\<close> returns a record whose total
  score is finite, its components are the four weighted values energy, consistency,
  reliability and weather, in this order, all finite; their sum, added in this order as
  \<open>sum\<close> adds them, is the total score exactly, and so within \<open>1e-9\<close> of it.
\<close>

theorem finite_total_is_sum_of_components:
  assumes "create_solar_score pd df = Inr (Some r)" and "total_score r = Fin t"
  shows "\<exists>e c rl w.
           components r =
             [(''energy'', Fin e), (''consistency'', Fin c),
              (''reliability'', Fin rl), (''weather'', Fin w)] \<and>
           e + c + rl + w = t \<and>
           within_tolerance (fadd (fadd (fadd (Fin e) (Fin c)) (Fin rl)) (Fin w))
             (total_score r) (1 / 10 ^ 9)"
proof -
  from assms(1) obtain ghi_col w0 where
    t: "total_score r =
       fadd (fadd (fadd (fadd (Fin 0)
         (weighted (series_mean pd ghi_col) (py_max (series_mean pd ghi_col) (Fin 500)) (Fin 40)))
         (weighted (consistency_floored (series_std pd ghi_col) (series_mean pd ghi_col)) (Fin
             100) (Fin 30)))
         (Fin (reliability_raw ghi_col / 100 * 20)))
         (Fin (w0 / 100 * 10))"
    and c: "components r =
       [(''energy'', weighted (series_mean pd ghi_col) (py_max (series_mean pd ghi_col) (Fin 500))
           (Fin 40)),
        (''consistency'',
           weighted (consistency_floored (series_std pd ghi_col) (series_mean pd ghi_col)) (Fin
               100) (Fin 30)),
        (''reliability'', Fin (reliability_raw ghi_col / 100 * 20)),
        (''weather'', Fin (w0 / 100 * 10))]"
    by (rule create_solar_score_record)
  define E where "E = weighted (series_mean pd ghi_col) (py_max (series_mean pd ghi_col) (Fin
      500)) (Fin 40)"
  define C where
    "C = weighted (consistency_floored (series_std pd ghi_col) (series_mean pd ghi_col)) (Fin 100)
        (Fin 30)"
  define rl where "rl = reliability_raw ghi_col / 100 * 20"
  define w where "w = w0 / 100 * 10"
  have tot: "fadd (fadd (fadd (fadd (Fin 0) E) C) (Fin rl)) (Fin w) = Fin t"
    using t assms(2) unfolding E_def C_def rl_def w_def by simp
  from tot obtain a3 where 3: "fadd (fadd (fadd (Fin 0) E) C) (Fin rl) = Fin a3"
    and s3: "a3 + w = t" "ov (a3 + w) = Fin (a3 + w)"
    by (elim fadd_eq_Fin) simp
  from 3 obtain a2 where 2: "fadd (fadd (Fin 0) E) C = Fin a2"
    and s2: "a2 + rl = a3" "ov (a2 + rl) = Fin (a2 + rl)"
    by (elim fadd_eq_Fin) simp
  from 2 obtain a1 c where 1: "fadd (Fin 0) E = Fin a1" and cc: "C = Fin c"
    and s1: "a1 + c = a2" "ov (a1 + c) = Fin (a1 + c)"
    by (elim fadd_eq_Fin) simp
  from 1 obtain e where ee: "E = Fin e" and s0: "0 + e = a1"
    by (elim fadd_eq_Fin) simp
  have sum: "e + c + rl + w = t" using s0 s1(1) s2(1) s3(1) by simp
  have "fadd (fadd (fadd (Fin e) (Fin c)) (Fin rl)) (Fin w) = Fin t"
    using s0 s1 s2 s3 by simp
  then have tol: "within_tolerance (fadd (fadd (fadd (Fin e) (Fin c)) (Fin rl)) (Fin w))
             (total_score r) (1 / 10 ^ 9)"
    unfolding assms(2) by (simp add: within_tolerance_refl)
  have comps: "components r =
             [(''energy'', Fin e), (''consistency'', Fin c),
              (''reliability'', Fin rl), (''weather'', Fin w)]"
    unfolding c using ee cc unfolding E_def C_def rl_def w_def by simp
  show ?thesis
    by (rule exI[of _ e], rule exI[of _ c], rule exI[of _ rl], rule exI[of _ w])
       (intro conjI comps sum tol)
qed

lemma example_reliability: "reliability_raw [Num 100, Num 200, Num 300] = 100 / 3"
proof -
  have f: "\<lfloor>(2::real) * 0.7\<rfloor> = 1" by (simp add: floor_eq_iff)
  have s: "sort [100, 200, 300 :: real] = [100, 200, 300]" by simp
  have "quantile 0.7 [100, 200, 300] = 240"
    unfolding quantile_def Let_def s by (simp add: f)
  then show ?thesis unfolding reliability_raw_def frac_gt_def by simp
qed

lemma example_score:
  "create_solar_score \<lparr>mean = (\<lambda>col. Fin 200), std = (\<lambda>col. Fin 100)\<rparr> (\<lparr>index = RangeIndex 3,
      columns = [(''GHI'', [Num 100, Num 200, Num 300])]\<rparr>
          :: nat frame) =
     Inr (Some \<lparr>total_score = Fin (143 / 3),
                components = [(''energy'', Fin 16), (''consistency'', Fin 15),
                              (''reliability'', Fin (20 / 3)), (''weather'', Fin 10)],
                raw_scores = [''energy'' \<mapsto> Fin 200, ''consistency'' \<mapsto> Fin 50,
                              ''reliability'' \<mapsto> Fin (100 / 3), ''weather'' \<mapsto> Fin 100]\<rparr>)"
proof -
  let ?df = "(\<lparr>index = RangeIndex 3, columns = [(''GHI'', [Num 100, Num 200, Num 300])]\<rparr>
          :: nat frame)"
  let ?pd = "\<lparr>mean = (\<lambda>col. Fin 200), std = (\<lambda>col. Fin 100)\<rparr>"
  let ?col = "[Num 100, Num 200, Num 300]"
  have g: "getitem ?df ''GHI'' = Some ?col" by (simp add: getitem_def)
  have n: "numeric ?col" by (simp add: numeric_def)
  have s: "fgt (series_std ?pd ?col) (Fin 0)" by (simp add: series_std_def)
  have w: "weather_unfloored ?df = Inr 100" by (simp add: weather_unfloored_def getitem_def)
  have e: "weighted (Fin 200) (py_max (Fin 200) (Fin 500)) (Fin 40) = Fin 16"
    using energy_weighted_range[of 200] by simp
  have k: "consistency_floored (Fin 100) (Fin 200) = Fin 50"
    unfolding consistency_floored_def fsub_def Let_def
    by (simp add: ov_in_range py_max_Fin)
  have kw: "weighted (Fin 50) (Fin 100) (Fin 30) = Fin 15"
    using percent_weighted_range[of 50 30] by simp
  show ?thesis
    unfolding create_solar_score_value[OF g n s w]
    by (simp add: series_mean_def series_std_def e k kw example_reliability ov_in_range)
qed

theorem finite_total_is_sum_of_components_witness:
  "\<exists>r. create_solar_score \<lparr>mean = (\<lambda>col. Fin 200), std = (\<lambda>col. Fin 100)\<rparr> (\<lparr>index = RangeIndex 3,
      columns = [(''GHI'', [Num 100, Num 200, Num 300])]\<rparr>
          :: nat frame) = Inr (Some r) \<and>
       total_score r = Fin (143 / 3) \<and>
       (\<exists>e c rl w.
           components r =
             [(''energy'', Fin e), (''consistency'', Fin c),
              (''reliability'', Fin rl), (''weather'', Fin w)] \<and>
           e + c + rl + w = 143 / 3 \<and>
           within_tolerance (fadd (fadd (fadd (Fin e) (Fin c)) (Fin rl)) (Fin w))
             (total_score r) (1 / 10 ^ 9))"
proof -
  obtain r where r: "create_solar_score \<lparr>mean = (\<lambda>col. Fin 200), std = (\<lambda>col. Fin 100)\<rparr> (\<lparr>index =
      RangeIndex 3, columns = [(''GHI'', [Num 100, Num 200, Num 300])]\<rparr>
          :: nat frame) = Inr (Some r)"
    and t: "total_score r = Fin (143 / 3)"
    using example_score by simp
  show ?thesis
    by (rule exI[of _ r], intro conjI, rule r, rule t,
        rule finite_total_is_sum_of_components[OF r t])
qed

lemma two_rows_reliability:
  assumes "a < b"
  shows "reliability_raw [Num a, Num b] = 50"
proof -
  define x where "x = (b - a) * (7 / 10)"
  have f: "\<lfloor>(7 / 10 :: real)\<rfloor> = 0" by (simp add: floor_eq_iff)
  have s: "sort [a, b] = [a, b]" using assms by simp
  have q: "quantile (7 / 10) [a, b] = a + x"
    unfolding quantile_def Let_def s x_def by (simp add: f)
  have d: "0 < b - a" using assms by simp
  then have "(b - a) * (7 / 10) < (b - a) * 1" by (intro mult_strict_left_mono) simp_all
  then have x1: "x < b - a" unfolding x_def by simp
  have x0: "0 \<le> x" unfolding x_def using d by simp
  have lt: "a + x < b" "\<not> a + x < a" using x0 x1 by linarith+
  show ?thesis unfolding reliability_raw_def frac_gt_def using lt by (simp add: q)
qed

lemma overflow_score:
  assumes "a < b"
  shows "create_solar_score \<lparr>mean = (\<lambda>col. PosInf), std = (\<lambda>col. PosInf)\<rparr>
           (\<lparr>index = RangeIndex 2, columns = [(''GHI'', [Num a, Num b])]\<rparr> :: nat frame) =
     Inr (Some \<lparr>total_score = Nan,
                components = [(''energy'', Nan), (''consistency'', Nan),
                              (''reliability'', Fin 10), (''weather'', Fin 10)],
                raw_scores = [''energy'' \<mapsto> PosInf, ''consistency'' \<mapsto> Nan,
                              ''reliability'' \<mapsto> Fin 50, ''weather'' \<mapsto> Fin 100]\<rparr>)"
proof -
  let ?pd = "\<lparr>mean = (\<lambda>col. PosInf), std = (\<lambda>col. PosInf)\<rparr>"
  let ?df = "\<lparr>index = RangeIndex 2, columns = [(''GHI'', [Num a, Num b])]\<rparr> :: nat frame"
  let ?col = "[Num a, Num b]"
  have g: "getitem ?df ''GHI'' = Some ?col" by (simp add: getitem_def)
  have n: "numeric ?col" by (simp add: numeric_def)
  have s: "fgt (series_std ?pd ?col) (Fin 0)" by (simp add: series_std_def)
  have w: "weather_unfloored ?df = Inr 100" by (simp add: weather_unfloored_def getitem_def)
  have rel: "reliability_raw ?col = 50" using assms by (rule two_rows_reliability)
  have e: "weighted PosInf (py_max PosInf (Fin 500)) (Fin 40) = Nan"
    by (simp add: weighted_def py_max_def)
  have k: "consistency_floored PosInf PosInf = Nan"
    by (simp add: consistency_floored_def fsub_def py_max_def)
  have kw: "weighted Nan (Fin 100) (Fin 30) = Nan" by (simp add: weighted_def)
  show ?thesis
    unfolding create_solar_score_value[OF g n s w]
    by (simp add: series_mean_def series_std_def e k kw rel)
qed

lemma big_lt: "(10::real) ^ 308 < 15 * 10 ^ 307"
proof -
  have "(10::real) ^ 308 = 10 * 10 ^ 307" by (simp add: power_Suc[symmetric] del: power_Suc)
  moreover have "(0::real) < 10 ^ 307" by (rule zero_less_power) simp
  ultimately show ?thesis by linarith
qed

text \<open>
  The claim as stated fails where the sum of the values overflows: for the column
  1e308, 1.5e308 pandas gives \<open>mean()\<close> and \<open>std()\<close> as \<open>inf\<close>, the energy and the consistency
  values are \<open>inf / inf = nan\<close>, and so is the total; no tolerance holds on a \<open>nan\<close>.
\<close>

theorem nan_total_counterexample:
  "map_sum id (map_option components) (create_solar_score \<lparr>mean = (\<lambda>col. PosInf), std = (\<lambda>col.
      PosInf)\<rparr> (\<lparr>index = RangeIndex 2,
           columns = [(''GHI'', [Num (10 ^ 308), Num (15 * 10 ^ 307)])]\<rparr> :: nat frame))
     = Inr (Some [(''energy'', Nan), (''consistency'', Nan),
                  (''reliability'', Fin 10), (''weather'', Fin 10)]) \<and>
   map_sum id (map_option total_score) (create_solar_score \<lparr>mean = (\<lambda>col. PosInf), std = (\<lambda>col.
       PosInf)\<rparr> (\<lparr>index = RangeIndex 2,
           columns = [(''GHI'', [Num (10 ^ 308), Num (15 * 10 ^ 307)])]\<rparr> :: nat frame)) = Inr
               (Some Nan) \<and>
   \<not> within_tolerance (fadd (fadd (fadd Nan Nan) (Fin 10)) (Fin 10)) Nan (1 / 10 ^ 9)"
  unfolding overflow_score[OF big_lt] by (simp add: within_tolerance_def fsub_def)

text \<open>
  Claim C2. On a table without a \<open>GHI\<close> column \<open>create_solar_score\<close> returns the
  "no score" result \<open>None\<close>: a normal return, not an exception, whatever else the table
  holds and whatever the reductions would give.
\<close>

theorem no_ghi_no_score:
  assumes "\<not> has_column df ''GHI''"
  shows "create_solar_score pd df = Inr None"
  using assms unfolding create_solar_score_def has_column_getitem by simp

theorem no_ghi_no_score_witness:
  "\<not> has_column (\<lparr>index = RangeIndex 2, columns = [(''RH'', [Num 90, Num 40])]\<rparr> :: nat frame)
      ''GHI'' \<and>
   create_solar_score \<lparr>mean = (\<lambda>col. Nan), std = (\<lambda>col. Nan)\<rparr>
     (\<lparr>index = RangeIndex 2, columns = [(''RH'', [Num 90, Num 40])]\<rparr> :: nat frame) = Inr None"
proof -
  have h: "\<not> has_column (\<lparr>index = RangeIndex 2, columns = [(''RH'', [Num 90, Num 40])]\<rparr>
              :: nat frame) ''GHI''"
    by (simp add: has_column_def)
  show ?thesis by (rule conjI[OF h no_ghi_no_score[OF h]])
qed

text \<open>
  Claim C3. The claim is that a clean numeric \<open>GHI\<close> column never makes the scorer
  raise, a zero standard deviation included. On the column 5, 5 pandas gives the mean 5
  and \<open>std() = 0\<close>; \<open>scores['consistency']\<close> is never assigned, and reading it at line
  64 raises \<open>KeyError\<close>: no record is returned.
\<close>

theorem zero_std_raises_KeyError:
  "create_solar_score \<lparr>mean = (\<lambda>col. Fin 5), std = (\<lambda>col. Fin 0)\<rparr>
     (\<lparr>index = RangeIndex 2, columns = [(''GHI'', [Num 5, Num 5])]\<rparr> :: nat frame)
   = Inl (KeyError ''consistency'')"
proof -
  let ?df = "\<lparr>index = RangeIndex 2, columns = [(''GHI'', [Num 5, Num 5])]\<rparr> :: nat frame"
  let ?pd = "\<lparr>mean = (\<lambda>col. Fin 5), std = (\<lambda>col. Fin 0)\<rparr>"
  have g: "getitem ?df ''GHI'' = Some [Num 5, Num 5]" by (simp add: getitem_def)
  have n: "numeric [Num 5, Num 5]" by (simp add: numeric_def)
  have s: "\<not> fgt (series_std ?pd [Num 5, Num 5]) (Fin 0)" by (simp add: series_std_def)
  have w: "weather_unfloored ?df = Inr 100"
    by (simp add: weather_unfloored_def getitem_def)
  show ?thesis using g n s w by (rule create_solar_score_KeyError)
qed

lemma score_components_finite:
  assumes "create_solar_score pd df = Inr (Some r)"
    and "getitem df ''GHI'' = Some ghi_col"
    and "series_mean pd ghi_col = Fin m" and "0 \<le> m"
  obtains e c w where
    "components r =
       [(''energy'', Fin e), (''consistency'', Fin c),
        (''reliability'', Fin (reliability_raw ghi_col / 100 * 20)), (''weather'', Fin w)]"
    "0 \<le> e" "e \<le> 40" "0 \<le> c" "c \<le> 30" "0 \<le> w" "w \<le> 10"
    "total_score r = Fin (e + c + reliability_raw ghi_col / 100 * 20 + w)"
proof -
  from assms(1) obtain col w0 where g: "getitem df ''GHI'' = Some col"
    and s: "fgt (series_std pd col) (Fin 0)"
    and w0: "weather_unfloored df = Inr w0"
    and t: "total_score r =
       fadd (fadd (fadd (fadd (Fin 0)
         (weighted (series_mean pd col) (py_max (series_mean pd col) (Fin 500)) (Fin 40)))
         (weighted (consistency_floored (series_std pd col) (series_mean pd col)) (Fin 100) (Fin
             30)))
         (Fin (reliability_raw col / 100 * 20)))
         (Fin (w0 / 100 * 10))"
    and c: "components r =
       [(''energy'', weighted (series_mean pd col) (py_max (series_mean pd col) (Fin 500)) (Fin
           40)),
        (''consistency'',
           weighted (consistency_floored (series_std pd col) (series_mean pd col)) (Fin 100) (Fin
               30)),
        (''reliability'', Fin (reliability_raw col / 100 * 20)),
        (''weather'', Fin (w0 / 100 * 10))]"
    by (rule create_solar_score_record)
  have col: "col = ghi_col" using g assms(2) by simp
  define e where "e = m / max m 500 * 40"
  have E: "weighted (series_mean pd col) (py_max (series_mean pd col) (Fin 500)) (Fin 40) = Fin e"
    and e: "0 \<le> e" "e \<le> 40"
    unfolding col assms(3) e_def using energy_weighted_range[OF assms(4)] by simp_all
  obtain c0 where c0: "consistency_floored (series_std pd col) (series_mean pd col) = Fin c0"
    "0 \<le> c0" "c0 \<le> 100"
    using consistency_floored_range[OF s assms(4)] unfolding col assms(3) by blast
  define k where "k = c0 / 100 * 30"
  have K: "weighted (consistency_floored (series_std pd col) (series_mean pd col)) (Fin 100) (Fin
      30) = Fin k"
    and k: "0 \<le> k" "k \<le> 30"
    unfolding c0(1) k_def using percent_weighted_range[OF c0(2) c0(3), of 30] by simp_all
  define rl where "rl = reliability_raw col / 100 * 20"
  have rl: "0 \<le> rl" "rl \<le> 20"
    unfolding rl_def
    using percent_weighted_range[OF reliability_raw_nonneg[of col] reliability_raw_le_100[of col],
            of 20]
    by simp_all
  define w where "w = w0 / 100 * 10"
  have w: "0 \<le> w" "w \<le> 10"
    unfolding w_def using weather_unfloored_range[OF w0] by simp_all
  have "total_score r = fadd (fadd (fadd (fadd (Fin 0) (Fin e)) (Fin k)) (Fin rl)) (Fin w)"
    unfolding t E K rl_def w_def ..
  also have "\<dots> = Fin (e + k + rl + w)"
    using e k rl w by (simp add: ov_in_range)
  finally have tot: "total_score r = Fin (e + k + rl + w)" .
  have comps: "components r =
       [(''energy'', Fin e), (''consistency'', Fin k),
        (''reliability'', Fin rl), (''weather'', Fin w)]"
    unfolding c E K rl_def w_def ..
  show ?thesis
    using comps e k w tot unfolding rl_def col by (rule that)
qed

lemma score_needs_two_values:
  assumes "create_solar_score pd df = Inr (Some r)" and "getitem df ''GHI'' = Some ghi_col"
  shows "2 \<le> length (dropna ghi_col)"
proof -
  from assms(1) obtain col where "getitem df ''GHI'' = Some col"
    "fgt (series_std pd col) (Fin 0)"
    by (rule create_solar_score_conditions)
  then have "fgt (series_std pd ghi_col) (Fin 0)" using assms(2) by simp
  then show ?thesis unfolding series_std_def by (cases "length (dropna ghi_col) < 2") simp_all
qed

lemma score_needs_two_rows:
  assumes "create_solar_score pd df = Inr (Some r)" and "wf_frame df"
  shows "2 \<le> len_frame df"
proof -
  from assms(1) obtain col where g: "getitem df ''GHI'' = Some col"
    by (rule create_solar_score_conditions)
  have "2 \<le> length (dropna col)" using assms(1) g by (rule score_needs_two_values)
  also have "\<dots> \<le> length col" by (rule length_dropna_le)
  also have "\<dots> = len_frame df" using assms(2) g by (rule wf_frame_length)
  finally show ?thesis .
qed

text \<open>
  Claim C8. In every record the scorer returns for a well-formed table, the weather raw
  value is finite and lies between 0 and 100. It is 100 when there is no \<open>RH\<close> column;
  with an \<open>RH\<close> column (which then has at least one row) it is 100 minus half the
  percentage of rows whose \<open>RH\<close> is above 85, floored at 0, and so 100 when no value is
  above 85.
\<close>

theorem weather_raw_range:
  assumes "create_solar_score pd df = Inr (Some r)" and "wf_frame df"
  shows "\<exists>w. raw_scores r ''weather'' = Some (Fin w) \<and> 0 \<le> w \<and> w \<le> 100 \<and>
           (case getitem df ''RH'' of
              None \<Rightarrow> w = 100
            | Some rh \<Rightarrow>
                rh \<noteq> [] \<and>
                w = max (100 - 0.5 * (frac_gt rh 85 * 100)) 0 \<and>
                (list_all (\<lambda>x. x \<le> 85) (dropna rh) \<longrightarrow> w = 100))"
proof -
  from assms(1) obtain ghi_col w0 where g: "getitem df ''GHI'' = Some ghi_col"
    and n: "numeric ghi_col"
    and w0: "weather_unfloored df = Inr w0"
    and raw: "raw_scores r ''weather'' = Some (Fin w0)"
    by (rule create_solar_score_record)
  have range: "50 \<le> w0 \<and> w0 \<le> 100" using w0 by (rule weather_unfloored_range)
  have "case getitem df ''RH'' of
          None \<Rightarrow> w0 = 100
        | Some rh \<Rightarrow>
            rh \<noteq> [] \<and>
            w0 = max (100 - 0.5 * (frac_gt rh 85 * 100)) 0 \<and>
            (list_all (\<lambda>x. x \<le> 85) (dropna rh) \<longrightarrow> w0 = 100)"
  proof (cases "getitem df ''RH''")
    case None
    then show ?thesis using weather_unfloored_cases[OF w0] by simp
  next
    case (Some rh)
    then have w: "w0 = 100 - frac_gt rh 85 * 100 * 0.5"
      using weather_unfloored_cases[OF w0] by simp
    have rows: "2 \<le> len_frame df" using assms by (rule score_needs_two_rows)
    have "length rh = len_frame df" using assms(2) Some by (rule wf_frame_length)
    then have ne: "rh \<noteq> []" using rows by auto
    have mx: "max w0 0 = w0" using range by simp
    have z: "w0 = 100" if "list_all (\<lambda>x. x \<le> 85) (dropna rh)"
      unfolding w frac_gt_zero[OF that] by simp
    have "w0 = max (100 - 0.5 * (frac_gt rh 85 * 100)) 0"
      using mx unfolding w by simp
    then show ?thesis using Some ne z by simp
  qed
  then show ?thesis using raw range by (intro exI[of _ w0]) simp
qed


theorem weather_raw_range_witness:
  "\<exists>r. create_solar_score \<lparr>mean = (\<lambda>col. Fin 200), std = (\<lambda>col. Fin 100)\<rparr> (\<lparr>index = RangeIndex 3,
           columns = [(''GHI'', [Num 100, Num 200, Num 300]),
                      (''RH'', [Num 90, Num 40, Num 86])]\<rparr> :: nat frame) = Inr (Some r) \<and>
       wf_frame (\<lparr>index = RangeIndex 3,
           columns = [(''GHI'', [Num 100, Num 200, Num 300]),
                      (''RH'', [Num 90, Num 40, Num 86])]\<rparr> :: nat frame) \<and>
       (\<exists>w. raw_scores r ''weather'' = Some (Fin w) \<and> 0 \<le> w \<and> w \<le> 100 \<and>
            w = max (100 - 0.5 * (frac_gt [Num 90, Num 40, Num 86] 85 * 100)) 0)"
proof -
  let ?df = "(\<lparr>index = RangeIndex 3,
           columns = [(''GHI'', [Num 100, Num 200, Num 300]),
                      (''RH'', [Num 90, Num 40, Num 86])]\<rparr> :: nat frame)"
  let ?pd = "\<lparr>mean = (\<lambda>col. Fin 200), std = (\<lambda>col. Fin 100)\<rparr>"
  have rh: "getitem ?df ''RH'' = Some [Num 90, Num 40, Num 86]"
    by (simp add: getitem_def)
  have wf: "wf_frame ?df" by (simp add: wf_frame_def len_frame_def)
  have "\<exists>r. create_solar_score ?pd ?df = Inr (Some r)"
  proof (rule create_solar_score_returns)
    show "getitem ?df ''GHI'' = Some [Num 100, Num 200, Num 300]"
      by (simp add: getitem_def)
    show "numeric [Num 100, Num 200, Num 300]" by (simp add: numeric_def)
    show "fgt (series_std ?pd [Num 100, Num 200, Num 300]) (Fin 0)"
      by (simp add: series_std_def)
    show "weather_unfloored ?df = Inr (100 - frac_gt [Num 90, Num 40, Num 86] 85 * 100 * 0.5)"
      unfolding weather_unfloored_def rh by (simp add: numeric_def)
  qed
  then obtain r where r: "create_solar_score ?pd ?df = Inr (Some r)" ..
  from weather_raw_range[OF r wf] obtain w where
    "raw_scores r ''weather'' = Some (Fin w)" "0 \<le> w" "w \<le> 100"
    "w = max (100 - 0.5 * (frac_gt [Num 90, Num 40, Num 86] 85 * 100)) 0"
    unfolding rh by auto
  then show ?thesis using r wf by blast
qed

text \<open>
  Claim C9, as amended. When all \<open>GHI\<close> values are non-negative, their standard
  deviation is positive and their mean, as pandas computes it, is finite (the sum of
  the values does not overflow), each weighted component of the returned record is
  finite, non-negative and at most its weight: energy 40, consistency 30, reliability
  20, weather 10. The mean of values none of which is negative is assumed not to be
  negative.
\<close>

theorem weighted_components_bounded:
  assumes "create_solar_score pd df = Inr (Some r)"
    and "getitem df ''GHI'' = Some ghi_col"
    and "list_all (\<lambda>x. 0 \<le> x) (dropna ghi_col)"
    and "fgt (series_std pd ghi_col) (Fin 0)"
    and "mean_keeps_sign pd"
    and "series_mean pd ghi_col = Fin m"
  shows "\<exists>e c rl w.
           components r =
             [(''energy'', Fin e), (''consistency'', Fin c),
              (''reliability'', Fin rl), (''weather'', Fin w)] \<and>
           0 \<le> e \<and> e \<le> 40 \<and> 0 \<le> c \<and> c \<le> 30 \<and>
           0 \<le> rl \<and> rl \<le> 20 \<and> 0 \<le> w \<and> w \<le> 10"
proof -
  have two: "2 \<le> length (dropna ghi_col)"
    using assms(1) assms(2) by (rule score_needs_two_values)
  then have "dropna ghi_col \<noteq> []" by auto
  then have "mean pd ghi_col = Fin m" using assms(6) by (simp add: series_mean_def)
  moreover have "\<not> fgt (Fin 0) (mean pd ghi_col)"
    using assms(5) assms(3) unfolding mean_keeps_sign_def by blast
  ultimately have m: "0 \<le> m" by simp
  from assms(1) assms(2) assms(6) m obtain e c w where
    comps: "components r =
       [(''energy'', Fin e), (''consistency'', Fin c),
        (''reliability'', Fin (reliability_raw ghi_col / 100 * 20)), (''weather'', Fin w)]"
    and b: "0 \<le> e" "e \<le> 40" "0 \<le> c" "c \<le> 30" "0 \<le> w" "w \<le> 10"
    by (rule score_components_finite)
  have rl: "0 \<le> reliability_raw ghi_col / 100 * 20" "reliability_raw ghi_col / 100 * 20 \<le> 20"
    using reliability_raw_nonneg[of ghi_col] reliability_raw_le_100[of ghi_col] by simp_all
  show ?thesis
    by (rule exI[of _ e], rule exI[of _ c],
        rule exI[of _ "reliability_raw ghi_col / 100 * 20"], rule exI[of _ w])
       (intro conjI comps b rl)
qed

theorem weighted_components_bounded_witness:
  "\<exists>r. create_solar_score \<lparr>mean = (\<lambda>col. Fin 200), std = (\<lambda>col. Fin 100)\<rparr> (\<lparr>index = RangeIndex 3,
      columns = [(''GHI'', [Num 100, Num 200, Num 300])]\<rparr>
          :: nat frame) = Inr (Some r) \<and>
       list_all (\<lambda>x. 0 \<le> x) (dropna [Num 100, Num 200, Num 300]) \<and>
       fgt (series_std \<lparr>mean = (\<lambda>col. Fin 200), std = (\<lambda>col. Fin 100)\<rparr> [Num 100, Num 200, Num
           300]) (Fin 0) \<and>
       mean_keeps_sign \<lparr>mean = (\<lambda>col. Fin 200), std = (\<lambda>col. Fin 100)\<rparr> \<and>
       series_mean \<lparr>mean = (\<lambda>col. Fin 200), std = (\<lambda>col. Fin 100)\<rparr> [Num 100, Num 200, Num 300] =
           Fin 200 \<and>
       (\<exists>e c rl w.
           components r =
             [(''energy'', Fin e), (''consistency'', Fin c),
              (''reliability'', Fin rl), (''weather'', Fin w)] \<and>
           0 \<le> e \<and> e \<le> 40 \<and> 0 \<le> c \<and> c \<le> 30 \<and>
           0 \<le> rl \<and> rl \<le> 20 \<and> 0 \<le> w \<and> w \<le> 10)"
proof -
  let ?col = "[Num 100, Num 200, Num 300]"
  obtain r where r: "create_solar_score \<lparr>mean = (\<lambda>col. Fin 200), std = (\<lambda>col. Fin 100)\<rparr> (\<lparr>index =
      RangeIndex 3, columns = [(''GHI'', [Num 100, Num 200, Num 300])]\<rparr>
          :: nat frame) = Inr (Some r)"
    using example_score by simp
  have g: "getitem (\<lparr>index = RangeIndex 3, columns = [(''GHI'', [Num 100, Num 200, Num 300])]\<rparr>
          :: nat frame) ''GHI'' = Some ?col" by (simp add: getitem_def)
  have nn: "list_all (\<lambda>x. 0 \<le> x) (dropna ?col)" by simp
  have sd: "fgt (series_std \<lparr>mean = (\<lambda>col. Fin 200), std = (\<lambda>col. Fin 100)\<rparr> ?col) (Fin 0)" by
      (simp add: series_std_def)
  have ks: "mean_keeps_sign \<lparr>mean = (\<lambda>col. Fin 200), std = (\<lambda>col. Fin 100)\<rparr>" by (simp add:
      mean_keeps_sign_def)
  have mn: "series_mean \<lparr>mean = (\<lambda>col. Fin 200), std = (\<lambda>col. Fin 100)\<rparr> ?col = Fin 200" by (simp
      add: series_mean_def)
  show ?thesis
    by (rule exI[of _ r], intro conjI, rule r, rule nn, rule sd, rule ks, rule mn,
        rule weighted_components_bounded[OF r g nn sd ks mn])
qed

lemma two_rows_nonneg:
  assumes "0 \<le> a" "0 \<le> b"
  shows "list_all (\<lambda>x. 0 \<le> x) (dropna [Num a, Num b])"
  using assms by simp

lemma two_rows_std_inf:
  "fgt (series_std \<lparr>mean = (\<lambda>col. PosInf), std = (\<lambda>col. PosInf)\<rparr> [Num a, Num b]) (Fin 0)"
  by (simp add: series_std_def)

text \<open>
  The claim as stated fails where the sum of the values overflows: the values 1e308 and
  1.5e308 are not negative and pandas gives their \<open>std()\<close> as \<open>inf\<close>, which is positive, but
  the energy and the consistency values are \<open>nan\<close>, and \<open>0 <= nan\<close> and \<open>nan <= 30\<close> are
  false.
\<close>

theorem nan_components_counterexample:
  "list_all (\<lambda>x. 0 \<le> x) (dropna [Num (10 ^ 308), Num (15 * 10 ^ 307)]) \<and>
   fgt (series_std \<lparr>mean = (\<lambda>col. PosInf), std = (\<lambda>col. PosInf)\<rparr> [Num (10 ^ 308), Num (15 * 10 ^
       307)]) (Fin 0) \<and>
   map_sum id (map_option (component ''energy'')) (create_solar_score \<lparr>mean = (\<lambda>col. PosInf), std
       = (\<lambda>col. PosInf)\<rparr> (\<lparr>index = RangeIndex 2,
           columns = [(''GHI'', [Num (10 ^ 308), Num (15 * 10 ^ 307)])]\<rparr> :: nat frame))
     = Inr (Some (Some Nan)) \<and>
   map_sum id (map_option (component ''consistency'')) (create_solar_score \<lparr>mean = (\<lambda>col. PosInf),
       std = (\<lambda>col. PosInf)\<rparr> (\<lparr>index = RangeIndex 2,
           columns = [(''GHI'', [Num (10 ^ 308), Num (15 * 10 ^ 307)])]\<rparr> :: nat frame))
     = Inr (Some (Some Nan)) \<and>
   \<not> fle (Fin 0) Nan \<and> \<not> fle Nan (Fin 40) \<and> \<not> fle Nan (Fin 30)"
proof -
  have p: "(0::real) \<le> 10 ^ 308" by (rule zero_le_power) simp
  have "(0::real) \<le> 10 ^ 307" by (rule zero_le_power) simp
  then have q: "(0::real) \<le> 15 * 10 ^ 307" by (intro mult_nonneg_nonneg) simp_all
  have nn: "list_all (\<lambda>x. 0 \<le> x) (dropna [Num (10 ^ 308), Num (15 * 10 ^ 307)])"
    using p q by (rule two_rows_nonneg)
  have sd: "fgt (series_std \<lparr>mean = (\<lambda>col. PosInf), std = (\<lambda>col. PosInf)\<rparr>
                  [Num (10 ^ 308), Num (15 * 10 ^ 307)]) (Fin 0)"
    by (rule two_rows_std_inf)
  have sc: "map_sum id (map_option (component ''energy''))
              (create_solar_score \<lparr>mean = (\<lambda>col. PosInf), std = (\<lambda>col. PosInf)\<rparr>
                 (\<lparr>index = RangeIndex 2,
                   columns = [(''GHI'', [Num (10 ^ 308), Num (15 * 10 ^ 307)])]\<rparr> :: nat frame))
            = Inr (Some (Some Nan))"
    "map_sum id (map_option (component ''consistency''))
              (create_solar_score \<lparr>mean = (\<lambda>col. PosInf), std = (\<lambda>col. PosInf)\<rparr>
                 (\<lparr>index = RangeIndex 2,
                   columns = [(''GHI'', [Num (10 ^ 308), Num (15 * 10 ^ 307)])]\<rparr> :: nat frame))
            = Inr (Some (Some Nan))"
    unfolding overflow_score[OF big_lt] by (simp_all add: component_def)
  have f: "\<not> fle (Fin 0) Nan" "\<not> fle Nan (Fin 40)" "\<not> fle Nan (Fin 30)" by simp_all
  show ?thesis by (intro conjI nn sd sc f)
qed





lemma three_equal_cells: "[Num a, Num a, Num a] = replicate 3 (Num a)"
  by (simp add: numeral_3_eq_3)

text \<open>
  Claim C4, as amended. Let the \<open>GHI\<close> column be constant with value \<open>v > 0\<close>, and let
  \<open>m\<close> be its mean as pandas computes it (\<open>v\<close> up to rounding), finite. In every record
  that \<open>create_solar_score\<close> returns, the reliability raw value is 0 (no row is strictly
  above the 70th percentile \<open>v\<close>) and so is its weighted value; the energy raw value is
  \<open>m\<close> and the weighted one is \<open>m / max(m, 500) * 40\<close>, which is
  \<open>min(m, 500) / max(m, 500) * 40\<close> up to \<open>m = 500\<close> and 40 above. The mean of values
  none of which is negative is assumed not to be negative.
\<close>

theorem constant_ghi_values:
  assumes "getitem df ''GHI'' = Some (replicate n (Num v))" and "0 < v"
    and "mean_keeps_sign pd"
    and "create_solar_score pd df = Inr (Some r)"
    and "series_mean pd (replicate n (Num v)) = Fin m"
  shows "raw_scores r ''reliability'' = Some (Fin 0) \<and>
         component ''reliability'' r = Some (Fin 0) \<and>
         raw_scores r ''energy'' = Some (Fin m) \<and>
         component ''energy'' r = Some (Fin (m / max m 500 * 40)) \<and>
         m / max m 500 * 40 = (if m \<le> 500 then min m 500 / max m 500 * 40 else 40)"
proof -
  let ?col = "replicate n (Num v)"
  from assms(4) obtain col w0 where g: "getitem df ''GHI'' = Some col"
    and c: "components r =
       [(''energy'', weighted (series_mean pd col) (py_max (series_mean pd col) (Fin 500)) (Fin
           40)),
        (''consistency'',
           weighted (consistency_floored (series_std pd col) (series_mean pd col))
             (Fin 100) (Fin 30)),
        (''reliability'', Fin (reliability_raw col / 100 * 20)),
        (''weather'', Fin (w0 / 100 * 10))]"
    and re: "raw_scores r ''energy'' = Some (series_mean pd col)"
    and rr: "raw_scores r ''reliability'' = Some (Fin (reliability_raw col))"
    by (rule create_solar_score_record)
  have col: "col = ?col" using g assms(1) by simp
  have rel: "reliability_raw ?col = 0" by (rule reliability_raw_constant)
  have "2 \<le> length (dropna ?col)" using assms(4) assms(1) by (rule score_needs_two_values)
  then have ne: "dropna ?col \<noteq> []" by auto
  have "list_all (\<lambda>x. 0 \<le> x) (dropna ?col)"
    unfolding dropna_replicate using assms(2) by (simp add: list_all_iff)
  then have "\<not> fgt (Fin 0) (mean pd ?col)"
    using assms(3) unfolding mean_keeps_sign_def by blast
  moreover have "mean pd ?col = Fin m" using assms(5) ne by (simp add: series_mean_def)
  ultimately have m: "0 \<le> m" by simp
  have e: "weighted (Fin m) (py_max (Fin m) (Fin 500)) (Fin 40) = Fin (m / max m 500 * 40)"
    using energy_weighted_range[OF m] by simp
  have 1: "raw_scores r ''reliability'' = Some (Fin 0)" using rr unfolding col rel .
  have 2: "component ''reliability'' r = Some (Fin 0)"
    unfolding component_def c col rel by simp
  have 3: "raw_scores r ''energy'' = Some (Fin m)" using re unfolding col assms(5) .
  have 4: "component ''energy'' r = Some (Fin (m / max m 500 * 40))"
    unfolding component_def c col assms(5) e by simp
  have 5: "m / max m 500 * 40 = (if m \<le> 500 then min m 500 / max m 500 * 40 else 40)"
    using m by (simp add: max_def min_def)
  show ?thesis by (intro conjI 1 2 3 4 5)
qed

theorem constant_ghi_values_witness:
  "(0::real) < 0.1 \<and>
   mean_keeps_sign \<lparr>mean = (\<lambda>col. Fin (7205759403792795 / 2 ^ 56)),
          std = (\<lambda>col. Fin (2757880273211543 / 2 ^ 107))\<rparr> \<and>
   series_mean \<lparr>mean = (\<lambda>col. Fin (7205759403792795 / 2 ^ 56)),
          std = (\<lambda>col. Fin (2757880273211543 / 2 ^ 107))\<rparr> (replicate 3 (Num 0.1)) = Fin
              (7205759403792795 / 2 ^ 56) \<and>
   (\<exists>r. create_solar_score \<lparr>mean = (\<lambda>col. Fin (7205759403792795 / 2 ^ 56)),
          std = (\<lambda>col. Fin (2757880273211543 / 2 ^ 107))\<rparr> (\<lparr>index = RangeIndex 3, columns =
              [(''GHI'', [Num 0.1, Num 0.1, Num 0.1])]\<rparr>
          :: nat frame) = Inr (Some r) \<and>
        raw_scores r ''reliability'' = Some (Fin 0) \<and>
        component ''reliability'' r = Some (Fin 0) \<and>
        raw_scores r ''energy'' = Some (Fin (7205759403792795 / 2 ^ 56)) \<and>
        component ''energy'' r =
          Some (Fin (7205759403792795 / 2 ^ 56 / max (7205759403792795 / 2 ^ 56) 500 * 40)))"
proof -
  let ?pd = "\<lparr>mean = (\<lambda>col. Fin (7205759403792795 / 2 ^ 56)),
          std = (\<lambda>col. Fin (2757880273211543 / 2 ^ 107))\<rparr>"
  let ?df = "(\<lparr>index = RangeIndex 3, columns = [(''GHI'', [Num 0.1, Num 0.1, Num 0.1])]\<rparr>
          :: nat frame)"
  have v: "(0::real) < 0.1" by simp
  have ks: "mean_keeps_sign ?pd" by (simp add: mean_keeps_sign_def)
  have mn: "series_mean ?pd (replicate 3 (Num 0.1)) = Fin (7205759403792795 / 2 ^ 56)"
    by (simp add: series_mean_def numeral_3_eq_3)
  have g: "getitem ?df ''GHI'' = Some (replicate 3 (Num 0.1))"
    unfolding three_equal_cells[symmetric] by (simp add: getitem_def)
  have "\<exists>r. create_solar_score ?pd ?df = Inr (Some r)"
  proof (rule create_solar_score_returns[OF g])
    show "numeric (replicate 3 (Num 0.1))" by (rule numeric_replicate)
    show "fgt (series_std ?pd (replicate 3 (Num 0.1))) (Fin 0)"
      by (simp add: series_std_def dropna_replicate)
    show "weather_unfloored ?df = Inr 100"
      by (simp add: weather_unfloored_def getitem_def)
  qed
  then obtain r where r: "create_solar_score ?pd ?df = Inr (Some r)" ..
  from constant_ghi_values[OF g v ks r mn]
  have "raw_scores r ''reliability'' = Some (Fin 0)"
    "component ''reliability'' r = Some (Fin 0)"
    "raw_scores r ''energy'' = Some (Fin (7205759403792795 / 2 ^ 56))"
    "component ''energy'' r =
          Some (Fin (7205759403792795 / 2 ^ 56 / max (7205759403792795 / 2 ^ 56) 500 * 40))"
    by blast+
  then show ?thesis using v ks mn r by blast
qed

lemma energy_weighted_saturates:
  assumes "500 \<le> m"
  shows "weighted (Fin m) (py_max (Fin m) (Fin 500)) (Fin 40) = Fin 40"
proof -
  have "0 \<le> m" using assms by simp
  then have "weighted (Fin m) (py_max (Fin m) (Fin 500)) (Fin 40) = Fin (m / max m 500 * 40)"
    using energy_weighted_range by blast
  moreover have "m / max m 500 * 40 = 40" using assms by (simp add: max_def)
  ultimately show ?thesis by simp
qed

text \<open>
  The claim as stated fails above 500: on the constant column 1000.7 (three rows) pandas
  gives the mean 1000.7000000000002 and, by rounding, a positive \<open>std()\<close>, so that a record
  is returned; its energy value is \<open>mean / max(mean, 500) * 40 = 40\<close>, not
  \<open>min(v, 500) / max(v, 500) * 40\<close>.
\<close>

theorem constant_ghi_counterexample:
  "map_sum id (map_option (component ''energy'')) (create_solar_score \<lparr>mean = (\<lambda>col. Fin
      (8802250287323547 / 2 ^ 43)),
          std = (\<lambda>col. Fin (2757880273211543 / 2 ^ 94))\<rparr> (\<lparr>index = RangeIndex 3, columns =
              [(''GHI'', [Num 1000.7, Num 1000.7, Num 1000.7])]\<rparr>
          :: nat frame))
     = Inr (Some (Some (Fin 40))) \<and>
   min 1000.7 500 / max 1000.7 500 * 40 \<noteq> (40::real)"
proof -
  let ?pd = "\<lparr>mean = (\<lambda>col. Fin (8802250287323547 / 2 ^ 43)),
          std = (\<lambda>col. Fin (2757880273211543 / 2 ^ 94))\<rparr>"
  let ?df = "(\<lparr>index = RangeIndex 3, columns = [(''GHI'', [Num 1000.7, Num 1000.7, Num 1000.7])]\<rparr>
          :: nat frame)"
  let ?col = "[Num 1000.7, Num 1000.7, Num 1000.7]"
  have g: "getitem ?df ''GHI'' = Some ?col" by (simp add: getitem_def)
  have n: "numeric ?col" by (simp add: numeric_def)
  have s: "fgt (series_std ?pd ?col) (Fin 0)" by (simp add: series_std_def)
  have w: "weather_unfloored ?df = Inr 100" by (simp add: weather_unfloored_def getitem_def)
  have m: "series_mean ?pd ?col = Fin (8802250287323547 / 2 ^ 43)"
    by (simp add: series_mean_def)
  have "map_sum id (map_option (component ''energy'')) (create_solar_score ?pd ?df)
          = Inr (Some (Some (Fin 40)))"
    unfolding create_solar_score_value[OF g n s w] m
    by (simp add: component_def energy_weighted_saturates)
  moreover have "min 1000.7 500 / max 1000.7 500 * 40 \<noteq> (40::real)" by simp
  ultimately show ?thesis by (rule conjI)
qed

section \<open>Properties of the loader\<close>

lemma detect_timestamp_none:
  assumes "find (has_column df) cs = None"
  shows "detect_timestamp pd cs df = Inr df"
  using assms
proof (induction cs)
  case Nil
  show ?case by simp
next
  case (Cons c cs)
  then have n: "\<not> has_column df c" and r: "find (has_column df) cs = None"
    by (auto split: if_splits)
  have "getitem df c = None" using n by (simp add: has_column_getitem)
  moreover have "detect_timestamp pd cs df = Inr df" using r by (rule Cons.IH)
  ultimately show ?case by simp
qed

lemma detect_timestamp_first:
  assumes "find (has_column df) cs = Some c" and "getitem df c = Some cells"
  shows "detect_timestamp pd cs df =
           (case to_datetime pd cells of
              Inl e \<Rightarrow> Inl e
            | Inr ts \<Rightarrow> Inr (set_index c ts df))"
  using assms
proof (induction cs)
  case Nil
  then show ?case by simp
next
  case (Cons a cs)
  show ?case
  proof (cases "has_column df a")
    case True
    then have "a = c" using Cons.prems(1) by simp
    then show ?thesis using Cons.prems(2) by simp
  next
    case False
    then have "find (has_column df) cs = Some c" using Cons.prems(1) by simp
    then have "detect_timestamp pd cs df =
           (case to_datetime pd cells of
              Inl e \<Rightarrow> Inl e
            | Inr ts \<Rightarrow> Inr (set_index c ts df))"
      using Cons.prems(2) by (rule Cons.IH)
    moreover have "getitem df a = None" using False by (simp add: has_column_getitem)
    ultimately show ?thesis by simp
  qed
qed

lemma load_data_read_csv_fails:
  assumes "read_csv pd f = Inl e"
  shows "load_data pd f = (None, ''Error loading file: '' @ str_exn e)"
  using assms unfolding load_data_def load_data_try_def by simp

lemma index_attr_DatetimeIndex:
  assumes "index_attr f name idx = Inr cells"
  obtains col ts where "idx = DatetimeIndex col ts" "cells = map f ts"
  using assms by (cases idx) simp_all

lemma index_attr_other:
  assumes "index_class idx \<noteq> ''DatetimeIndex''"
  shows "index_attr f name idx = Inl (no_attribute (index_class idx) name)"
  using assms by (cases idx) simp_all

lemma load_data_try_no_hour:
  assumes "read_csv pd f = Inr df" and "detect_timestamp pd timestamp_cols df = Inr df'"
    and "index_attr (hour pd) ''hour'' (index df') = Inl e"
  shows "load_data_try pd f = Inl e"
  using assms unfolding load_data_try_def by simp

lemma load_data_try_datetime_index:
  assumes "read_csv pd f = Inr df" and "detect_timestamp pd timestamp_cols df = Inr df'"
    and "index df' = DatetimeIndex c ts"
  shows "load_data_try pd f =
           Inr (setitem (setitem (setitem df' ''Hour'' (map (hour pd) ts))
                           ''Month'' (map (month pd) ts))
                  ''DayOfWeek'' (map (dayofweek pd) ts),
                success_message
                  (setitem (setitem (setitem df' ''Hour'' (map (hour pd) ts))
                           ''Month'' (map (month pd) ts))
                  ''DayOfWeek'' (map (dayofweek pd) ts)))"
  using assms unfolding load_data_try_def Let_def by (simp add: setitem_def)

lemma load_data_try_detect_fails:
  assumes "read_csv pd f = Inr df" and "detect_timestamp pd timestamp_cols df = Inl e"
  shows "load_data_try pd f = Inl e"
  using assms unfolding load_data_try_def by simp

lemma no_timestamp_column_fails:
  assumes "read_csv pd f = Inr df"
    and "find (has_column df) timestamp_cols = None"
    and "index_class (index df) \<noteq> ''DatetimeIndex''"
  shows "load_data pd f =
           (None, ''Error loading file: '' @ str_exn (no_attribute (index_class (index df))
               ''hour''))"
proof -
  have "detect_timestamp pd timestamp_cols df = Inr df"
    using assms(2) by (rule detect_timestamp_none)
  moreover have "index_attr (hour pd) ''hour'' (index df)
                   = Inl (no_attribute (index_class (index df)) ''hour'')"
    using assms(3) by (rule index_attr_other)
  ultimately have "load_data_try pd f = Inl (no_attribute (index_class (index df)) ''hour'')"
    using assms(1) by (intro load_data_try_no_hour)
  then show ?thesis unfolding load_data_def by simp
qed

lemma has_column_setitem:
  "has_column (setitem df name cells) k \<longleftrightarrow> k = name \<or> has_column df k"
  unfolding has_column_getitem getitem_def setitem_def
  by (simp add: AList.update_conv')

lemma has_column_set_index:
  "has_column (set_index c ts df) k \<longleftrightarrow> k \<noteq> c \<and> has_column df k"
  unfolding has_column_getitem getitem_def set_index_def
  by (simp add: AList.delete_conv')

lemma index_setitem: "index (setitem df name cells) = index df"
  by (simp add: setitem_def)

lemma len_frame_setitem: "len_frame (setitem df name cells) = len_frame df"
  by (simp add: setitem_def len_frame_def)

lemma load_data_try_cases:
  "(\<exists>e. load_data_try pd f = Inl e) \<or>
   (\<exists>df. load_data_try pd f = Inr (df, success_message df) \<and>
         has_column df ''Hour'' \<and> has_column df ''Month'' \<and> has_column df ''DayOfWeek'')"
proof (cases "read_csv pd f")
  case (Inl e)
  then have "load_data_try pd f = Inl e" unfolding load_data_try_def by simp
  then show ?thesis by (intro disjI1 exI[of _ e])
next
  case (Inr df)
  show ?thesis
  proof (cases "detect_timestamp pd timestamp_cols df")
    case (Inl e)
    have "load_data_try pd f = Inl e" using Inr Inl by (rule load_data_try_detect_fails)
    then show ?thesis by (intro disjI1 exI[of _ e])
  next
    case det: (Inr df')
    show ?thesis
    proof (cases "index_attr (hour pd) ''hour'' (index df')")
      case (Inl e)
      have "load_data_try pd f = Inl e"
        using Inr det Inl by (rule load_data_try_no_hour)
      then show ?thesis by (intro disjI1 exI[of _ e])
    next
      case hrs: (Inr hours)
      then obtain c ts where DatetimeIndex: "index df' = DatetimeIndex c ts"
        by (rule index_attr_DatetimeIndex)
      let ?r = "setitem (setitem (setitem df' ''Hour'' (map (hour pd) ts))
                           ''Month'' (map (month pd) ts))
                  ''DayOfWeek'' (map (dayofweek pd) ts)"
      have a: "load_data_try pd f = Inr (?r, success_message ?r)"
        using Inr det DatetimeIndex by (rule load_data_try_datetime_index)
      have b: "has_column ?r ''Hour''" "has_column ?r ''Month''" "has_column ?r ''DayOfWeek''"
        by (simp_all add: has_column_setitem)
      show ?thesis by (intro disjI2 exI[of _ ?r] conjI a b)
    qed
  qed
qed

text \<open>
  Claim C6. \<open>load_data\<close> always returns a pair. When \<open>read_csv\<close> raises, and whenever
  the body of the \<open>try\<close> raises some exception \<open>e\<close>, the pair is no table and the
  message \<open>Error loading file: \<close> followed by \<open>str(e)\<close>. Otherwise it is the table
  with the columns \<open>Hour\<close>, \<open>Month\<close> and \<open>DayOfWeek\<close> set, and the message giving its
  numbers of rows and of columns.
\<close>

theorem load_data_never_raises:
  "(\<forall>e. read_csv pd f = Inl e \<longrightarrow>
        load_data pd f = (None, ''Error loading file: '' @ str_exn e)) \<and>
   ((\<exists>e. load_data_try pd f = Inl e \<and>
         load_data pd f = (None, ''Error loading file: '' @ str_exn e)) \<or>
    (\<exists>df. load_data_try pd f = Inr (df, success_message df) \<and>
          load_data pd f =
            (Some df, ''Successfully loaded '' @ str_nat (len_frame df) @ '' rows with '' @
                      str_nat (length (columns df)) @ '' columns'') \<and>
          has_column df ''Hour'' \<and> has_column df ''Month'' \<and> has_column df ''DayOfWeek''))"
proof (intro conjI allI impI)
  fix e assume "read_csv pd f = Inl e"
  then show "load_data pd f = (None, ''Error loading file: '' @ str_exn e)"
    by (rule load_data_read_csv_fails)
next
  from load_data_try_cases[of pd f]
  show "(\<exists>e. load_data_try pd f = Inl e \<and>
         load_data pd f = (None, ''Error loading file: '' @ str_exn e)) \<or>
    (\<exists>df. load_data_try pd f = Inr (df, success_message df) \<and>
          load_data pd f =
            (Some df, ''Successfully loaded '' @ str_nat (len_frame df) @ '' rows with '' @
                      str_nat (length (columns df)) @ '' columns'') \<and>
          has_column df ''Hour'' \<and> has_column df ''Month'' \<and> has_column df ''DayOfWeek'')"
  proof (elim disjE exE conjE)
    fix e assume e: "load_data_try pd f = Inl e"
    then have "load_data pd f = (None, ''Error loading file: '' @ str_exn e)"
      unfolding load_data_def by simp
    with e show ?thesis by (intro disjI1 exI[of _ e] conjI)
  next
    fix df assume d: "load_data_try pd f = Inr (df, success_message df)"
      and h: "has_column df ''Hour''" "has_column df ''Month''" "has_column df ''DayOfWeek''"
    have "load_data pd f = (Some df, success_message df)"
      unfolding load_data_def d by simp
    then have "load_data pd f =
            (Some df, ''Successfully loaded '' @ str_nat (len_frame df) @ '' rows with '' @
                      str_nat (length (columns df)) @ '' columns'')"
      unfolding success_message_def .
    with d h show ?thesis by (intro disjI2 exI[of _ df] conjI)
  qed
qed

theorem load_data_never_raises_witness:
  "read_csv
     (\<lparr>read_csv = (\<lambda>f. Inl (PandasError ''No columns to parse from file'')),
       to_datetime = (\<lambda>cells. Inr []),
       hour = (\<lambda>t. Num (real t)), month = (\<lambda>t. Num 1), dayofweek = (\<lambda>t. Num 0)\<rparr>
        :: (unit, nat) pandas) ()
   = Inl (PandasError ''No columns to parse from file'') \<and>
   load_data
     (\<lparr>read_csv = (\<lambda>f. Inl (PandasError ''No columns to parse from file'')),
       to_datetime = (\<lambda>cells. Inr []),
       hour = (\<lambda>t. Num (real t)), month = (\<lambda>t. Num 1), dayofweek = (\<lambda>t. Num 0)\<rparr>
        :: (unit, nat) pandas) ()
   = (None, ''Error loading file: No columns to parse from file'')"
proof -
  let ?pd = "\<lparr>read_csv = (\<lambda>f. Inl (PandasError ''No columns to parse from file'')),
       to_datetime = (\<lambda>cells. Inr []),
       hour = (\<lambda>t. Num (real t)), month = (\<lambda>t. Num 1), dayofweek = (\<lambda>t. Num 0)\<rparr>
        :: (unit, nat) pandas"
  have h: "read_csv ?pd () = Inl (PandasError ''No columns to parse from file'')" by simp
  have "load_data ?pd () =
          (None, ''Error loading file: '' @ str_exn (PandasError
              ''No columns to parse from file''))"
    using load_data_never_raises[of ?pd "()"] h by (elim conjE allE impE)
  then show ?thesis using h by simp
qed

text \<open>
  Claim C5, as amended. When \<open>read_csv\<close> returns a table none of whose columns has one
  of the six timestamp names, and whose index is not a datetime index (\<open>read_csv\<close> gives
  a \<open>RangeIndex\<close> or an \<open>Index\<close> of labels), \<open>load_data\<close> returns no table: reading
  \<open>df.index.hour\<close> at line 22 raises \<open>AttributeError\<close>, and the result is the failure
  pair whose message names the class of the index.
\<close>

theorem load_without_timestamp_returns_error:
  assumes "read_csv pd f = Inr df"
    and "find (has_column df)
           [''Timestamp'', ''timestamp'', ''Date'', ''date'', ''Time'', ''time''] = None"
    and "index_class (index df) \<noteq> ''DatetimeIndex''"
  shows "load_data pd f =
           (None, ''Error loading file: '' @ [CHR 0x27] @ index_class (index df) @ [CHR 0x27] @
                  '' object has no attribute '' @ [CHR 0x27] @ ''hour'' @ [CHR 0x27])"
proof -
  have "find (has_column df) timestamp_cols = None"
    using assms(2) unfolding timestamp_cols_def .
  with assms(1) have "load_data pd f =
           (None, ''Error loading file: '' @ str_exn (no_attribute (index_class (index df))
               ''hour''))"
    using assms(3) by (rule no_timestamp_column_fails)
  then show ?thesis by (simp add: no_attribute_def)
qed

theorem load_without_timestamp_returns_error_witness:
  "read_csv (\<lparr>read_csv = (\<lambda>f. Inr \<lparr>index = RangeIndex 2, columns = [(''GHI'', [Num 1, Num 2])]\<rparr>),
       to_datetime = (\<lambda>cells. Inr (map (\<lambda>c. 0) cells)),
       hour = (\<lambda>t. Num (real t)), month = (\<lambda>t. Num 1), dayofweek = (\<lambda>t. Num 0)\<rparr>
        :: (unit, nat) pandas) ()
     = Inr \<lparr>index = RangeIndex 2, columns = [(''GHI'', [Num 1, Num 2])]\<rparr> \<and>
   find (has_column (\<lparr>index = RangeIndex 2, columns = [(''GHI'', [Num 1, Num 2])]\<rparr> :: nat frame))
     [''Timestamp'', ''timestamp'', ''Date'', ''date'', ''Time'', ''time''] = None \<and>
   load_data (\<lparr>read_csv = (\<lambda>f. Inr \<lparr>index = RangeIndex 2, columns = [(''GHI'', [Num 1, Num 2])]\<rparr>),
       to_datetime = (\<lambda>cells. Inr (map (\<lambda>c. 0) cells)),
       hour = (\<lambda>t. Num (real t)), month = (\<lambda>t. Num 1), dayofweek = (\<lambda>t. Num 0)\<rparr>
        :: (unit, nat) pandas) ()
     = (None, ''Error loading file: '' @ [CHR 0x27] @ ''RangeIndex'' @ [CHR 0x27] @
              '' object has no attribute '' @ [CHR 0x27] @ ''hour'' @ [CHR 0x27])"
proof -
  let ?df = "\<lparr>index = RangeIndex 2, columns = [(''GHI'', [Num 1, Num 2])]\<rparr> :: nat frame"
  let ?pd = "(\<lparr>read_csv = (\<lambda>f. Inr \<lparr>index = RangeIndex 2, columns = [(''GHI'', [Num 1, Num 2])]\<rparr>),
       to_datetime = (\<lambda>cells. Inr (map (\<lambda>c. 0) cells)),
       hour = (\<lambda>t. Num (real t)), month = (\<lambda>t. Num 1), dayofweek = (\<lambda>t. Num 0)\<rparr>
        :: (unit, nat) pandas)"
  have r: "read_csv ?pd () = Inr ?df" by simp
  have n: "find (has_column ?df)
     [''Timestamp'', ''timestamp'', ''Date'', ''date'', ''Time'', ''time''] = None"
    by (simp add: has_column_def)
  have i: "index_class (index ?df) \<noteq> ''DatetimeIndex''" by simp
  have "load_data ?pd () =
           (None, ''Error loading file: '' @ [CHR 0x27] @ index_class (index ?df) @ [CHR 0x27] @
                  '' object has no attribute '' @ [CHR 0x27] @ ''hour'' @ [CHR 0x27])"
    using r n i by (rule load_without_timestamp_returns_error)
  then have "load_data ?pd ()
     = (None, ''Error loading file: '' @ [CHR 0x27] @ ''RangeIndex'' @ [CHR 0x27] @
              '' object has no attribute '' @ [CHR 0x27] @ ''hour'' @ [CHR 0x27])"
    by simp
  with r n show ?thesis by (intro conjI)
qed

text \<open>
  The claim as stated fails on a file with the single column \<open>GHI\<close>: the result is no
  table, and the message of the \<open>AttributeError\<close>.
\<close>

theorem load_without_timestamp_counterexample:
  "load_data (\<lparr>read_csv = (\<lambda>f. Inr \<lparr>index = RangeIndex 2, columns = [(''GHI'', [Num 1, Num 2])]\<rparr>),
       to_datetime = (\<lambda>cells. Inr (map (\<lambda>c. 0) cells)),
       hour = (\<lambda>t. Num (real t)), month = (\<lambda>t. Num 1), dayofweek = (\<lambda>t. Num 0)\<rparr>
        :: (unit, nat) pandas) ()
   = (None, ''Error loading file: '' @ [CHR 0x27] @ ''RangeIndex'' @ [CHR 0x27] @
            '' object has no attribute '' @ [CHR 0x27] @ ''hour'' @ [CHR 0x27])"
proof -
  let ?df = "\<lparr>index = RangeIndex 2, columns = [(''GHI'', [Num 1, Num 2])]\<rparr> :: nat frame"
  let ?pd = "(\<lparr>read_csv = (\<lambda>f. Inr \<lparr>index = RangeIndex 2, columns = [(''GHI'', [Num 1, Num 2])]\<rparr>),
       to_datetime = (\<lambda>cells. Inr (map (\<lambda>c. 0) cells)),
       hour = (\<lambda>t. Num (real t)), month = (\<lambda>t. Num 1), dayofweek = (\<lambda>t. Num 0)\<rparr>
        :: (unit, nat) pandas)"
  have r: "read_csv ?pd () = Inr ?df" by simp
  have n: "find (has_column ?df) timestamp_cols = None"
    by (simp add: timestamp_cols_def has_column_def)
  have i: "index_class (index ?df) \<noteq> ''DatetimeIndex''" by simp
  have "load_data ?pd () =
          (None, ''Error loading file: '' @ str_exn (no_attribute (index_class (index ?df))
              ''hour''))"
    using r n i by (rule no_timestamp_column_fails)
  then show ?thesis by (simp add: no_attribute_def)
qed

lemma timestamp_col_not_feature:
  assumes "c \<in> set timestamp_cols"
  shows "c \<noteq> ''Hour'' \<and> c \<noteq> ''Month'' \<and> c \<noteq> ''DayOfWeek''"
  using assms unfolding timestamp_cols_def by auto

lemma load_data_timestamp_found:
  assumes "read_csv pd f = Inr df0"
    and "find (has_column df0) timestamp_cols = Some c"
    and "getitem df0 c = Some cells"
    and "to_datetime pd cells = Inr ts"
  shows "\<exists>df. load_data pd f = (Some df, success_message df) \<and>
              index df = DatetimeIndex c ts \<and> \<not> has_column df c \<and>
              columns df =
                AList.update ''DayOfWeek'' (map (dayofweek pd) ts)
                  (AList.update ''Month'' (map (month pd) ts)
                     (AList.update ''Hour'' (map (hour pd) ts)
                        (AList.delete c (columns df0))))"
proof -
  let ?d = "set_index c ts df0"
  let ?r = "setitem (setitem (setitem ?d ''Hour'' (map (hour pd) ts))
                       ''Month'' (map (month pd) ts))
              ''DayOfWeek'' (map (dayofweek pd) ts)"
  have det: "detect_timestamp pd timestamp_cols df0 = Inr ?d"
    unfolding detect_timestamp_first[OF assms(2) assms(3)] assms(4) by simp
  have idx: "index ?d = DatetimeIndex c ts" by (simp add: set_index_def)
  have "load_data_try pd f = Inr (?r, success_message ?r)"
    using assms(1) det idx by (rule load_data_try_datetime_index)
  then have 1: "load_data pd f = (Some ?r, success_message ?r)"
    unfolding load_data_def by simp
  have 2: "index ?r = DatetimeIndex c ts" by (simp add: index_setitem idx)
  have "c \<in> set timestamp_cols" using assms(2) by (auto simp: find_Some_iff)
  then have ne: "c \<noteq> ''Hour'' \<and> c \<noteq> ''Month'' \<and> c \<noteq> ''DayOfWeek''"
    by (rule timestamp_col_not_feature)
  have 3: "\<not> has_column ?r c"
    unfolding has_column_setitem has_column_set_index using ne by simp
  have 4: "columns ?r =
                AList.update ''DayOfWeek'' (map (dayofweek pd) ts)
                  (AList.update ''Month'' (map (month pd) ts)
                     (AList.update ''Hour'' (map (hour pd) ts)
                        (AList.delete c (columns df0))))"
    by (simp add: setitem_def set_index_def)
  show ?thesis by (intro exI[of _ ?r] conjI 1 2 3 4)
qed

lemma load_data_timestamp_unparsed:
  assumes "read_csv pd f = Inr df0"
    and "find (has_column df0) timestamp_cols = Some c"
    and "getitem df0 c = Some cells"
    and "to_datetime pd cells = Inl e"
  shows "load_data pd f = (None, ''Error loading file: '' @ str_exn e)"
proof -
  have "detect_timestamp pd timestamp_cols df0 = Inl e"
    unfolding detect_timestamp_first[OF assms(2) assms(3)] assms(4) by simp
  with assms(1) have "load_data_try pd f = Inl e" by (rule load_data_try_detect_fails)
  then show ?thesis unfolding load_data_def by simp
qed

text \<open>
  Claim C7. Let \<open>c\<close> be the first of \<open>Timestamp\<close>, \<open>timestamp\<close>, \<open>Date\<close>, \<open>date\<close>,
  \<open>Time\<close>, \<open>time\<close> that is a column of the table read; it is \<open>Timestamp\<close> whenever
  that is a column. Then \<open>load_data\<close> passes the column \<open>c\<close> to \<open>to_datetime\<close>. If the
  parse raises, the result is no table and the error message; otherwise the parsed
  values are the index of the returned table, named \<open>c\<close>, and \<open>c\<close> is no longer a
  column: the columns are the others, in their order, with the three time features.
\<close>

theorem first_timestamp_column_becomes_index:
  assumes "read_csv pd f = Inr df0"
    and "find (has_column df0)
           [''Timestamp'', ''timestamp'', ''Date'', ''date'', ''Time'', ''time''] = Some c"
    and "getitem df0 c = Some cells"
  shows "(has_column df0 ''Timestamp'' \<longrightarrow> c = ''Timestamp'') \<and>
         (case to_datetime pd cells of
            Inl e \<Rightarrow> load_data pd f = (None, ''Error loading file: '' @ str_exn e)
          | Inr ts \<Rightarrow>
              \<exists>df. load_data pd f = (Some df, success_message df) \<and>
                   index df = DatetimeIndex c ts \<and> \<not> has_column df c \<and>
                   columns df =
                     AList.update ''DayOfWeek'' (map (dayofweek pd) ts)
                       (AList.update ''Month'' (map (month pd) ts)
                          (AList.update ''Hour'' (map (hour pd) ts)
                             (AList.delete c (columns df0)))))"
proof (intro conjI impI)
  assume "has_column df0 ''Timestamp''"
  then show "c = ''Timestamp''" using assms(2) by simp
next
  have f: "find (has_column df0) timestamp_cols = Some c"
    using assms(2) unfolding timestamp_cols_def .
  show "case to_datetime pd cells of
            Inl e \<Rightarrow> load_data pd f = (None, ''Error loading file: '' @ str_exn e)
          | Inr ts \<Rightarrow>
              \<exists>df. load_data pd f = (Some df, success_message df) \<and>
                   index df = DatetimeIndex c ts \<and> \<not> has_column df c \<and>
                   columns df =
                     AList.update ''DayOfWeek'' (map (dayofweek pd) ts)
                       (AList.update ''Month'' (map (month pd) ts)
                          (AList.update ''Hour'' (map (hour pd) ts)
                             (AList.delete c (columns df0))))"
  proof (cases "to_datetime pd cells")
    case (Inl e)
    have "load_data pd f = (None, ''Error loading file: '' @ str_exn e)"
      using assms(1) f assms(3) Inl by (rule load_data_timestamp_unparsed)
    then show ?thesis unfolding Inl by simp
  next
    case (Inr ts)
    show ?thesis unfolding Inr sum.case
      using assms(1) f assms(3) Inr by (rule load_data_timestamp_found)
  qed
qed

theorem first_timestamp_column_becomes_index_witness:
  "find (has_column (\<lparr>index = RangeIndex 2,
              columns = [(''Date'', [Str ''2024-01-01'', Str ''2024-01-01'']),
                         (''Timestamp'', [Str ''2024-01-01 06:00'', Str ''2024-01-01 12:00'']),
                         (''GHI'', [Num 45.2, Num 250])]\<rparr> :: nat frame))
     [''Timestamp'', ''timestamp'', ''Date'', ''date'', ''Time'', ''time''] = Some ''Timestamp'' \<and>
   (\<exists>df. load_data (\<lparr>read_csv = (\<lambda>f. Inr \<lparr>index = RangeIndex 2,
              columns = [(''Date'', [Str ''2024-01-01'', Str ''2024-01-01'']),
                         (''Timestamp'', [Str ''2024-01-01 06:00'', Str ''2024-01-01 12:00'']),
                         (''GHI'', [Num 45.2, Num 250])]\<rparr>),
        to_datetime = (\<lambda>cells. Inr [6, 12]),
        hour = (\<lambda>t. Num (real t)), month = (\<lambda>t. Num 1), dayofweek = (\<lambda>t. Num 0)\<rparr>
         :: (unit, nat) pandas) () = (Some df, ''Successfully loaded 2 rows with 5 columns'') \<and>
         index df = DatetimeIndex ''Timestamp'' [6, 12] \<and>
         \<not> has_column df ''Timestamp'' \<and>
         columns df =
           [(''Date'', [Str ''2024-01-01'', Str ''2024-01-01'']),
            (''GHI'', [Num 45.2, Num 250]),
            (''Hour'', [Num 6, Num 12]),
            (''Month'', [Num 1, Num 1]),
            (''DayOfWeek'', [Num 0, Num 0])])"
proof -
  let ?df0 = "\<lparr>index = RangeIndex 2,
              columns = [(''Date'', [Str ''2024-01-01'', Str ''2024-01-01'']),
                         (''Timestamp'', [Str ''2024-01-01 06:00'', Str ''2024-01-01 12:00'']),
                         (''GHI'', [Num 45.2, Num 250])]\<rparr> :: nat frame"
  let ?pd = "(\<lparr>read_csv = (\<lambda>f. Inr \<lparr>index = RangeIndex 2,
              columns = [(''Date'', [Str ''2024-01-01'', Str ''2024-01-01'']),
                         (''Timestamp'', [Str ''2024-01-01 06:00'', Str ''2024-01-01 12:00'']),
                         (''GHI'', [Num 45.2, Num 250])]\<rparr>),
        to_datetime = (\<lambda>cells. Inr [6, 12]),
        hour = (\<lambda>t. Num (real t)), month = (\<lambda>t. Num 1), dayofweek = (\<lambda>t. Num 0)\<rparr>
         :: (unit, nat) pandas)"
  let ?cells = "[Str ''2024-01-01 06:00'', Str ''2024-01-01 12:00'']"
  have r: "read_csv ?pd () = Inr ?df0" by simp
  have f: "find (has_column ?df0)
     [''Timestamp'', ''timestamp'', ''Date'', ''date'', ''Time'', ''time''] = Some ''Timestamp''"
    by (simp add: has_column_def)
  have g: "getitem ?df0 ''Timestamp'' = Some ?cells" by (simp add: getitem_def)
  have t: "to_datetime ?pd ?cells = Inr [6, 12]" by simp
  from first_timestamp_column_becomes_index[OF r f g]
  have "\<exists>df. load_data ?pd () = (Some df, success_message df) \<and>
              index df = DatetimeIndex ''Timestamp'' [6, 12] \<and> \<not> has_column df ''Timestamp'' \<and>
              columns df =
                AList.update ''DayOfWeek'' (map (dayofweek ?pd) [6, 12])
                  (AList.update ''Month'' (map (month ?pd) [6, 12])
                     (AList.update ''Hour'' (map (hour ?pd) [6, 12])
                        (AList.delete ''Timestamp'' (columns ?df0))))"
    unfolding t sum.case by (rule conjunct2)
  then obtain df where l: "load_data ?pd () = (Some df, success_message df)"
    and i: "index df = DatetimeIndex ''Timestamp'' [6, 12]"
    and h: "\<not> has_column df ''Timestamp''"
    and c: "columns df =
                AList.update ''DayOfWeek'' (map (dayofweek ?pd) [6, 12])
                  (AList.update ''Month'' (map (month ?pd) [6, 12])
                     (AList.update ''Hour'' (map (hour ?pd) [6, 12])
                        (AList.delete ''Timestamp'' (columns ?df0))))"
    by (elim exE conjE)
  have c': "columns df =
           [(''Date'', [Str ''2024-01-01'', Str ''2024-01-01'']),
            (''GHI'', [Num 45.2, Num 250]),
            (''Hour'', [Num 6, Num 12]),
            (''Month'', [Num 1, Num 1]),
            (''DayOfWeek'', [Num 0, Num 0])]"
    unfolding c by (simp add: AList.delete_eq)
  have m: "success_message df = ''Successfully loaded 2 rows with 5 columns''"
    unfolding success_message_def len_frame_def i c' by (simp add: digit_def)
  have l': "load_data ?pd () = (Some df, ''Successfully loaded 2 rows with 5 columns'')"
    using l unfolding m .
  show ?thesis by (intro conjI exI[of _ df] f l' i h c')
qed

end
